theory Spec2Isabelle
  imports Complex_Main
begin

section \<open>Common Python values\<close>

text \<open>
  Python floats are modelled as reals, Python exceptions as values of \<open>error\<close>; a
  function that can raise returns \<open>error + 'a\<close>. A \<open>ValueError\<close> and a
  \<open>KeyError\<close> carry their message or key.
\<close>

datatype error =
    ValueError string
  | ZeroDivisionError
  | KeyError string
  | IndexError
  | OverflowError

definition bind_err :: "error + 'a \<Rightarrow> ('a \<Rightarrow> error + 'b) \<Rightarrow> error + 'b" where
  "bind_err r f = (case r of Inl e \<Rightarrow> Inl e | Inr v \<Rightarrow> f v)"

text \<open>
  Python's \<open>round(x, n)\<close> rounds to the nearest multiple of \<open>10^-n\<close>, ties going to
  the even multiple.
\<close>

definition round_half_even :: "real \<Rightarrow> int" where
  "round_half_even x =
     (let f = \<lfloor>x\<rfloor>; d = x - of_int f
      in if d < 1 / 2 then f
         else if 1 / 2 < d then f + 1
         else if even f then f else f + 1)"

definition py_round :: "real \<Rightarrow> nat \<Rightarrow> real" where
  "py_round x n = of_int (round_half_even (x * 10 ^ n)) / 10 ^ n"

text \<open>
  \<open>numpy.isclose(a, b, rtol, atol)\<close> is \<open>|a - b| <= atol + rtol * |b|\<close>; the default
  \<open>rtol\<close> is \<open>1e-05\<close>.
\<close>

definition isclose :: "real \<Rightarrow> real \<Rightarrow> real \<Rightarrow> real \<Rightarrow> bool" where
  "isclose a b rtol atol = (\<bar>a - b\<bar> \<le> atol + rtol * \<bar>b\<bar>)"

definition default_rtol :: real where
  "default_rtol = 1 / 100000"

text \<open>
  A dict with string keys is an association list with distinct keys, in insertion order;
  \<open>d[k]\<close> raises \<open>KeyError\<close> on a missing key.
\<close>

definition dict_get :: "(string \<times> 'v) list \<Rightarrow> string \<Rightarrow> error + 'v" where
  "dict_get d k = (case map_of d k of None \<Rightarrow> Inl (KeyError k) | Some v \<Rightarrow> Inr v)"

section \<open>Sites and robots\<close>

record site =
  site_id :: string
  site_name :: string
  latitude :: real
  longitude :: real
  depth_m :: real
  distance_from_port_km :: real
  mineral_concentration :: real
  mineral_types :: "string list"
  estimated_value_millions :: real
  environmental_sensitivity :: real
  terrain_difficulty :: real
  survey_data_quality :: real

record location =
  lat :: real
  lon :: real

record robot =
  robot_id :: string
  robot_name :: string
  max_depth_m :: real
  endurance_hours :: real
  speed_knots :: real
  sensors :: "string list"
  status :: string
  current_location :: location
  day_rate_usd :: real

text \<open>
  \<open>pd.DataFrame(rows)\<close> of an empty list has no columns, so selecting a column of it
  raises \<open>KeyError\<close>; of a non-empty list of records it has every field as a column.
\<close>

definition column :: "'a list \<Rightarrow> string \<Rightarrow> ('a \<Rightarrow> 'b) \<Rightarrow> error + 'b list" where
  "column df key field = (if df = [] then Inl (KeyError key) else Inr (map field df))"

section \<open>scoring.py: SitePrioritizationEngine\<close>

definition DEFAULT_WEIGHTS :: "(string \<times> real) list" where
  "DEFAULT_WEIGHTS =
     [(''mineral_concentration'', 20 / 100),
      (''depth'', 15 / 100),
      (''distance_from_port'', 10 / 100),
      (''environmental_sensitivity'', 15 / 100),
      (''estimated_value'', 20 / 100),
      (''terrain_difficulty'', 10 / 100),
      (''survey_data_quality'', 10 / 100)]"

record engine =
  weights :: "(string \<times> real) list"

text \<open>\<open>_validate_weights\<close>; the message of the error interpolates the total.\<close>

definition validate_weights :: "(string \<times> real) list \<Rightarrow> error + unit" where
  "validate_weights w =
     (let total = sum_list (map snd w)
      in if \<not> isclose total 1 default_rtol (1 / 100)
         then Inl (ValueError ''Weights must sum to 1.0, got {total}'')
         else Inr ())"

text \<open>
  \<open>__init__\<close>: \<open>weights if weights else DEFAULT_WEIGHTS.copy()\<close> takes the defaults for
  \<open>None\<close> and for the empty dict, which is falsy.
\<close>

definition SitePrioritizationEngine :: "(string \<times> real) list option \<Rightarrow> error + engine" where
  "SitePrioritizationEngine ws =
     (let w = (case ws of None \<Rightarrow> DEFAULT_WEIGHTS
               | Some d \<Rightarrow> if d = [] then DEFAULT_WEIGHTS else d)
      in bind_err (validate_weights w) (\<lambda>_. Inr \<lparr>weights = w\<rparr>))"

definition normalize_score :: "real \<Rightarrow> real \<Rightarrow> real \<Rightarrow> bool \<Rightarrow> real" where
  "normalize_score val min_val max_val inverse_flag =
     (if max_val = min_val then 50
      else let normalized = (val - min_val) / (max_val - min_val) * 100
           in if inverse_flag then 100 - normalized else normalized)"

record scored_site = site +
  mineral_score :: real
  depth_score :: real
  distance_score :: real
  environmental_score :: real
  value_score :: real
  terrain_score :: real
  quality_score :: real
  composite_score :: real

text \<open>The minimum and maximum of a column, as a pair.\<close>

definition col_range :: "real list \<Rightarrow> real \<times> real" where
  "col_range xs = (Min (set xs), Max (set xs))"

definition norm_in :: "real \<times> real \<Rightarrow> bool \<Rightarrow> real \<Rightarrow> real" where
  "norm_in rng inverse_flag x = normalize_score x (fst rng) (snd rng) inverse_flag"

text \<open>
  One row of \<open>score_sites\<close>: the seven normalised sub-scores and the rounded weighted sum,
  given the column ranges and the seven weights looked up.
\<close>

definition score_row ::
  "(real \<times> real) \<Rightarrow> (real \<times> real) \<Rightarrow> (real \<times> real) \<Rightarrow> (real \<times> real) \<Rightarrow>
   (real \<times> real) \<Rightarrow> (real \<times> real) \<Rightarrow> (real \<times> real) \<Rightarrow>
   real \<Rightarrow> real \<Rightarrow> real \<Rightarrow> real \<Rightarrow> real \<Rightarrow> real \<Rightarrow> real \<Rightarrow> site \<Rightarrow> scored_site" where
  "score_row mineral_conc_range depth_range distance_range env_range value_range
     terrain_range quality_range w_min w_dep w_dis w_env w_val w_ter w_qua s =
     (let ms = norm_in mineral_conc_range False (mineral_concentration s);
          ds = norm_in depth_range True (depth_m s);
          dis = norm_in distance_range True (distance_from_port_km s);
          es = norm_in env_range True (environmental_sensitivity s);
          vs = norm_in value_range False (estimated_value_millions s);
          ts = norm_in terrain_range True (terrain_difficulty s);
          qs = norm_in quality_range False (survey_data_quality s);
          composite = ms * w_min + ds * w_dep + dis * w_dis + es * w_env
                      + vs * w_val + ts * w_ter + qs * w_qua
      in site.extend s
           (scored_site.fields ms ds dis es vs ts qs (py_round composite 2)))"

text \<open>
  \<open>score_sites\<close>. The ranges are taken over the whole batch; the weights are looked up in
  the order in which the composite expression reads them; the rows are sorted by composite
  score, descending.
\<close>

definition score_sites :: "engine \<Rightarrow> site list \<Rightarrow> error + scored_site list" where
  "score_sites self sites =
     bind_err (column sites ''mineral_concentration'' mineral_concentration) (\<lambda>c_min.
     bind_err (column sites ''depth_m'' depth_m) (\<lambda>c_dep.
     bind_err (column sites ''distance_from_port_km'' distance_from_port_km) (\<lambda>c_dis.
     bind_err (column sites ''environmental_sensitivity'' environmental_sensitivity) (\<lambda>c_env.
     bind_err (column sites ''estimated_value_millions'' estimated_value_millions) (\<lambda>c_val.
     bind_err (column sites ''terrain_difficulty'' terrain_difficulty) (\<lambda>c_ter.
     bind_err (column sites ''survey_data_quality'' survey_data_quality) (\<lambda>c_qua.
     bind_err (dict_get (weights self) ''mineral_concentration'') (\<lambda>w_min.
     bind_err (dict_get (weights self) ''depth'') (\<lambda>w_dep.
     bind_err (dict_get (weights self) ''distance_from_port'') (\<lambda>w_dis.
     bind_err (dict_get (weights self) ''environmental_sensitivity'') (\<lambda>w_env.
     bind_err (dict_get (weights self) ''estimated_value'') (\<lambda>w_val.
     bind_err (dict_get (weights self) ''terrain_difficulty'') (\<lambda>w_ter.
     bind_err (dict_get (weights self) ''survey_data_quality'') (\<lambda>w_qua.
       Inr (sort_key (\<lambda>r. - composite_score r)
              (map (score_row (col_range c_min) (col_range c_dep) (col_range c_dis)
                      (col_range c_env) (col_range c_val) (col_range c_ter)
                      (col_range c_qua) w_min w_dep w_dis w_env w_val w_ter w_qua)
                 sites))))))))))))))))"

text \<open>
  app.py, the weight sliders: the raw weights are divided by their sum, or replaced by
  \<open>1/7\<close> each when the sum is not positive, before the engine is constructed.
\<close>

definition app_normalize_weights :: "(string \<times> real) list \<Rightarrow> (string \<times> real) list" where
  "app_normalize_weights raw_weights =
     (let weight_sum = sum_list (map snd raw_weights)
      in if 0 < weight_sum then map (\<lambda>(k, v). (k, v / weight_sum)) raw_weights
         else map (\<lambda>(k, v). (k, 1 / 7)) raw_weights)"


section \<open>matching.py: RobotSiteMatcher\<close>

definition SENSOR_REQUIREMENTS :: "(string \<times> string list) list" where
  "SENSOR_REQUIREMENTS =
     [(''Polymetallic Nodules'', [''side_scan_sonar'', ''multi_beam_echo_sounder'', ''HD_camera'']),
      (''Polymetallic Sulfides'',
         [''magnetometer'', ''side_scan_sonar'', ''HD_camera'', ''multi_beam_echo_sounder'']),
      (''Rare Earth Elements'',
         [''multi_beam_echo_sounder'', ''sub_bottom_profiler'', ''sediment_sampler'']),
      (''Cobalt Crust'', [''side_scan_sonar'', ''HD_camera'', ''magnetometer''])]"

text \<open>\<open>key in mineral_type\<close> on two strings: \<open>key\<close> occurs in \<open>mineral_type\<close>.\<close>

fun str_contains :: "string \<Rightarrow> string \<Rightarrow> bool" where
  "str_contains [] key = (key = [])"
| "str_contains (c # cs) key = (take (length key) (c # cs) = key \<or> str_contains cs key)"

text \<open>
  The set of required sensors of a site, as a list without duplicates (a Python set has
  no order of its own): the union of the table's entries over the site's mineral types.
\<close>

definition required_sensors_of :: "site \<Rightarrow> string list" where
  "required_sensors_of s =
     remdups (concat (map (\<lambda>mineral_type.
        concat (map (\<lambda>(key, req). if str_contains mineral_type key then req else [])
                  SENSOR_REQUIREMENTS))
        (mineral_types s)))"

datatype depth_message =
    Compatible_safety_margin int
  | Insufficient_depth_rating int

definition check_depth_compatibility :: "robot \<Rightarrow> site \<Rightarrow> bool \<times> depth_message" where
  "check_depth_compatibility r s =
     (let robot_max_depth = max_depth_m r;
          site_depth = depth_m s;
          safe_depth = robot_max_depth * (9 / 10)
      in if site_depth \<le> safe_depth
         then (True, Compatible_safety_margin \<lfloor>safe_depth - site_depth\<rfloor>)
         else (False, Insufficient_depth_rating \<lfloor>site_depth - safe_depth\<rfloor>))"

fun join_comma :: "string list \<Rightarrow> string" where
  "join_comma [] = []"
| "join_comma [x] = x"
| "join_comma (x # y # ys) = x @ '', '' @ join_comma (y # ys)"

definition check_sensor_compatibility :: "robot \<Rightarrow> site \<Rightarrow> bool \<times> string \<times> string list" where
  "check_sensor_compatibility r s =
     (let robot_sensors = set (sensors r);
          required_sensors = required_sensors_of s;
          missing_sensors = filter (\<lambda>x. x \<notin> robot_sensors) required_sensors
      in if missing_sensors = [] then (True, ''All required sensors present'', [])
         else (False, ''Missing sensors: '' @ join_comma missing_sensors, missing_sensors))"

definition check_status_compatibility :: "robot \<Rightarrow> bool \<times> string" where
  "check_status_compatibility r =
     (if status r = ''Available'' then (True, ''Available for deployment'')
      else if status r = ''In Maintenance'' then (False, ''Currently in maintenance'')
      else if status r = ''Deployed'' then (False, ''Currently deployed on another mission'')
      else if status r = ''Retired'' then (False, ''Robot retired from service'')
      else (False, ''Unknown status: '' @ status r))"

text \<open>
  The three blocks of \<open>calculate_compatibility_score\<close>: the points of the depth facet
  (the division raises for a site of depth 0 that the robot does not reach), of the sensor
  facet and of the status facet.
\<close>

definition depth_points :: "robot \<Rightarrow> site \<Rightarrow> error + real" where
  "depth_points r s =
     (if fst (check_depth_compatibility r s) then Inr 40
      else if depth_m s = 0 then Inl ZeroDivisionError
      else Inr (min 40 (max_depth_m r / depth_m s * 40)))"

definition sensor_points :: "robot \<Rightarrow> site \<Rightarrow> real" where
  "sensor_points r s =
     (case check_sensor_compatibility r s of (sensor_ok, _, missing) \<Rightarrow>
        if sensor_ok then 40
        else let required_sensors = required_sensors_of s
             in if 0 < length required_sensors
                then real (length required_sensors - length missing)
                       / real (length required_sensors) * 40
                else 0)"

definition status_points :: "robot \<Rightarrow> real" where
  "status_points r = (if fst (check_status_compatibility r) then 20 else 0)"

definition calculate_compatibility_score :: "robot \<Rightarrow> site \<Rightarrow> error + real" where
  "calculate_compatibility_score r s =
     bind_err (depth_points r s) (\<lambda>d.
       Inr (py_round (0 + d + sensor_points r s + status_points r) 2))"

text \<open>
  \<open>df[df[key] == v].iloc[0]\<close>: the first row whose column equals \<open>v\<close>; \<open>iloc[0]\<close> raises
  \<open>IndexError\<close> when no row is selected.
\<close>

definition iloc0 :: "'a list \<Rightarrow> error + 'a" where
  "iloc0 rows = (case rows of [] \<Rightarrow> Inl IndexError | x # _ \<Rightarrow> Inr x)"

definition first_row_where :: "'a list \<Rightarrow> string \<Rightarrow> ('a \<Rightarrow> string) \<Rightarrow> string \<Rightarrow> error + 'a" where
  "first_row_where df key field v =
     bind_err (column df key field) (\<lambda>_. iloc0 (filter (\<lambda>row. field row = v) df))"

record compatibility =
  comp_robot_id :: string
  comp_robot_name :: string
  comp_site_id :: string
  comp_site_name :: string
  compatibility_score :: real
  overall_status :: string
  status_color :: string
  depth_compatible :: bool
  depth_message :: depth_message
  sensor_compatible :: bool
  sensor_message :: string
  missing_sensors :: "string list"
  status_compatible :: bool
  status_message :: string

definition get_detailed_compatibility ::
  "robot list \<Rightarrow> site list \<Rightarrow> string \<Rightarrow> string \<Rightarrow> error + compatibility" where
  "get_detailed_compatibility robots_df sites_df rid sid =
     bind_err (first_row_where robots_df ''robot_id'' robot_id rid) (\<lambda>r.
     bind_err (first_row_where sites_df ''site_id'' site_id sid) (\<lambda>s.
       let depth = check_depth_compatibility r s;
           sensor = check_sensor_compatibility r s;
           stat = check_status_compatibility r
       in bind_err (calculate_compatibility_score r s) (\<lambda>score.
            let depth_ok = fst depth;
                sensor_ok = fst sensor;
                status_ok = fst stat;
                is_fully_compatible = (depth_ok \<and> sensor_ok \<and> status_ok);
                overall = (if is_fully_compatible then (''Fully Compatible'', ''green'')
                           else if depth_ok \<and> status_ok
                           then (''Partially Compatible'', ''yellow'')
                           else (''Incompatible'', ''red''))
            in Inr \<lparr>comp_robot_id = rid, comp_robot_name = robot_name r,
                    comp_site_id = sid, comp_site_name = site_name s,
                    compatibility_score = score,
                    overall_status = fst overall, status_color = snd overall,
                    depth_compatible = depth_ok, depth_message = snd depth,
                    sensor_compatible = sensor_ok, sensor_message = fst (snd sensor),
                    missing_sensors = snd (snd sensor),
                    status_compatible = status_ok, status_message = snd stat\<rparr>)))"

section \<open>optimizer.py: MissionOptimizer\<close>

text \<open>
  A \<open>datetime\<close> is the number of microseconds since 0001-01-01 00:00, a \<open>timedelta\<close> a
  number of microseconds. \<open>timedelta(hours=h)\<close> rounds to the microsecond and raises
  \<open>OverflowError\<close> beyond 999999999 days; adding it to a \<open>datetime\<close> raises
  \<open>OverflowError\<close> outside the years 1 to 9999; \<open>.days\<close> is the floor of the days.
\<close>

type_synonym datetime = int

definition us_per_day :: int where
  "us_per_day = 86400000000"

definition datetime_max :: int where
  "datetime_max = 3652059 * us_per_day - 1"

definition timedelta_hours :: "real \<Rightarrow> error + int" where
  "timedelta_hours h =
     (let us = round_half_even (h * 3600000000)
      in if us < - 999999999 * us_per_day \<or> 1000000000 * us_per_day \<le> us
         then Inl OverflowError else Inr us)"

definition datetime_add :: "datetime \<Rightarrow> int \<Rightarrow> error + datetime" where
  "datetime_add t d =
     (if t + d < 0 \<or> datetime_max < t + d then Inl OverflowError else Inr (t + d))"

definition timedelta_days :: "int \<Rightarrow> int" where
  "timedelta_days d = d div us_per_day"

text \<open>
  \<open>geopy.distance.geodesic\<close> is a library function: the optimizer is parametrised by
  it, as a function from two points to a distance in kilometres (or the library's error).
\<close>

type_synonym geodesic_km = "real \<times> real \<Rightarrow> real \<times> real \<Rightarrow> error + real"

definition calculate_transit_time ::
  "geodesic_km \<Rightarrow> real \<Rightarrow> real \<Rightarrow> real \<Rightarrow> real \<Rightarrow> real \<Rightarrow> error + real" where
  "calculate_transit_time geodesic from_lat from_lon to_lat to_lon vessel_speed_knots =
     bind_err (geodesic (from_lat, from_lon) (to_lat, to_lon)) (\<lambda>distance_km.
       let speed_kmh = vessel_speed_knots * (1852 / 1000)
       in if speed_kmh = 0 then Inl ZeroDivisionError else Inr (distance_km / speed_kmh))"

definition calculate_mission_duration :: "site \<Rightarrow> robot \<Rightarrow> real \<Rightarrow> error + real" where
  "calculate_mission_duration s r survey_area_km2 =
     (let robot_speed_kmh = speed_knots r * (1852 / 1000)
      in if robot_speed_kmh = 0 then Inl ZeroDivisionError
         else let survey_hours = (survey_area_km2 / robot_speed_kmh) * 3;
                  deployment_hours = 4;
                  depth_factor = 1 + (depth_m s / 5000) * (5 / 10);
                  terrain_factor = 1 + (terrain_difficulty s / 100) * (3 / 10);
                  total_hours = (survey_hours * depth_factor * terrain_factor) + deployment_hours
              in Inr (min total_hours (endurance_hours r * (8 / 10))))"

definition calculate_mission_cost :: "robot \<Rightarrow> real \<Rightarrow> real \<Rightarrow> real \<Rightarrow> real" where
  "calculate_mission_cost r mission_duration_hours transit_time_hours vessel_day_rate =
     (let total_hours = mission_duration_hours + transit_time_hours;
          total_days = total_hours / 24;
          robot_cost = day_rate_usd r * total_days;
          vessel_cost = vessel_day_rate * total_days;
          operational_cost = total_days * 15000
      in robot_cost + vessel_cost + operational_cost)"

definition calculate_compatibility_score_simple :: "robot \<Rightarrow> site \<Rightarrow> error + real" where
  "calculate_compatibility_score_simple r s =
     bind_err (if depth_m s \<le> max_depth_m r * (9 / 10) then Inr 50
               else if depth_m s = 0 then Inl ZeroDivisionError
               else Inr (min 50 (max_depth_m r / depth_m s * 50))) (\<lambda>depth_part.
       let required_sensors = [''side_scan_sonar'', ''multi_beam_echo_sounder'', ''HD_camera''];
           robot_sensors = set (sensors r);
           sensor_match = real (length (filter (\<lambda>x. x \<in> robot_sensors) required_sensors))
                            / real (length required_sensors)
       in Inr (0 + depth_part + sensor_match * 50))"

record mission =
  mission_id :: nat
  mission_site_id :: string
  mission_site_name :: string
  mission_robot_id :: string
  mission_robot_name :: string
  start_date :: datetime
  end_date :: datetime
  transit_hours :: real
  survey_hours :: real
  total_hours :: real
  cost_usd :: real
  mission_compatibility_score :: real
  site_latitude :: real
  site_longitude :: real

record schedule =
  available_from :: datetime
  schedule_missions :: "mission list"

text \<open>The variables that the scheduling loop updates.\<close>

record sched_state =
  missions :: "mission list"
  remaining_budget :: real
  robot_schedules :: "(string \<times> schedule) list"

text \<open>The keys of a dict built from a list of keys: each once, in order of first insertion.\<close>

definition dict_keys_of :: "string list \<Rightarrow> string list" where
  "dict_keys_of ks = rev (remdups (rev ks))"

text \<open>
  The inner loop over \<open>robot_schedules.items()\<close>: the best robot so far with its start
  time, and the best score so far (initially no robot and \<open>-1\<close>).
\<close>

fun best_robot_loop ::
  "robot list \<Rightarrow> site \<Rightarrow> (string \<times> schedule) list \<Rightarrow> (robot \<times> datetime) option \<times> real \<Rightarrow>
   error + ((robot \<times> datetime) option \<times> real)" where
  "best_robot_loop available_robots s [] best = Inr best"
| "best_robot_loop available_robots s ((rid, sch) # rest) best =
     (case iloc0 (filter (\<lambda>r. robot_id r = rid) available_robots) of
        Inl e \<Rightarrow> Inl e
      | Inr r \<Rightarrow>
          if max_depth_m r * (9 / 10) < depth_m s
          then best_robot_loop available_robots s rest best
          else (case calculate_compatibility_score_simple r s of
                  Inl e \<Rightarrow> Inl e
                | Inr comp_score \<Rightarrow>
                    if snd best < comp_score
                    then best_robot_loop available_robots s rest
                           (Some (r, available_from sch), comp_score)
                    else best_robot_loop available_robots s rest best))"

definition update_schedule ::
  "(string \<times> schedule) list \<Rightarrow> string \<Rightarrow> datetime \<Rightarrow> mission \<Rightarrow> (string \<times> schedule) list" where
  "update_schedule scheds rid mission_end m =
     map (\<lambda>(k, sch). if k = rid
            then (k, \<lparr>available_from = mission_end,
                      schedule_missions = schedule_missions sch @ [m]\<rparr>)
            else (k, sch)) scheds"

text \<open>
  The mission record built when a mission is scheduled. The identifier \<open>MISSION_nnn\<close>
  is kept as its number \<open>len(missions) + 1\<close>.
\<close>

definition make_mission ::
  "nat \<Rightarrow> site \<Rightarrow> robot \<Rightarrow> real \<Rightarrow> datetime \<Rightarrow> datetime \<Rightarrow> real \<Rightarrow> real \<Rightarrow> real \<Rightarrow> mission" where
  "make_mission n s best_robot best_score best_start_time mission_end transit_time
     mission_duration mission_cost =
     \<lparr>mission_id = n + 1,
      mission_site_id = site_id s,
      mission_site_name = site_name s,
      mission_robot_id = robot_id best_robot,
      mission_robot_name = robot_name best_robot,
      start_date = best_start_time,
      end_date = mission_end,
      transit_hours = py_round transit_time 1,
      survey_hours = py_round mission_duration 1,
      total_hours = py_round (transit_time + mission_duration) 1,
      cost_usd = py_round mission_cost 2,
      mission_compatibility_score = best_score,
      site_latitude = latitude s,
      site_longitude = longitude s\<rparr>"

text \<open>
  Scheduling the mission: it is appended, its cost is deducted from the remaining budget,
  and its robot's schedule entry is moved to the mission's end.
\<close>

definition commit_mission :: "sched_state \<Rightarrow> mission \<Rightarrow> real \<Rightarrow> datetime \<Rightarrow> sched_state" where
  "commit_mission st m mission_cost mission_end =
     \<lparr>missions = missions st @ [m],
      remaining_budget = remaining_budget st - mission_cost,
      robot_schedules = update_schedule (robot_schedules st) (mission_robot_id m) mission_end m\<rparr>"

text \<open>The body of the loop over the sorted sites, for one site.\<close>

definition schedule_site ::
  "geodesic_km \<Rightarrow> datetime \<Rightarrow> robot list \<Rightarrow> int \<Rightarrow> real \<Rightarrow> real \<Rightarrow> site \<Rightarrow> sched_state \<Rightarrow>
   error + sched_state" where
  "schedule_site geodesic start available_robots time_window_days vessel_speed_knots
     vessel_day_rate s st =
     bind_err (best_robot_loop available_robots s (robot_schedules st) (None, - 1)) (\<lambda>best.
       case fst best of
         None \<Rightarrow> Inr st
       | Some (best_robot, best_start_time) \<Rightarrow>
           if \<not> 40 \<le> snd best then Inr st
           else
             bind_err (calculate_transit_time geodesic
                         (lat (current_location best_robot)) (lon (current_location best_robot))
                         (latitude s) (longitude s) vessel_speed_knots) (\<lambda>transit_time.
             bind_err (calculate_mission_duration s best_robot 25) (\<lambda>mission_duration.
               let mission_cost = calculate_mission_cost best_robot mission_duration
                                    transit_time vessel_day_rate
               in if remaining_budget st < mission_cost then Inr st
                  else
                    bind_err (timedelta_hours (transit_time + mission_duration)) (\<lambda>td.
                    bind_err (datetime_add best_start_time td) (\<lambda>mission_end.
                      if time_window_days < timedelta_days (mission_end - start) then Inr st
                      else
                        Inr (commit_mission st
                               (make_mission (length (missions st)) s best_robot (snd best)
                                  best_start_time mission_end transit_time mission_duration
                                  mission_cost)
                               mission_cost mission_end))))))"

text \<open>The loop over the sorted sites; it stops once the remaining budget is not positive.\<close>

fun greedy_loop ::
  "geodesic_km \<Rightarrow> datetime \<Rightarrow> robot list \<Rightarrow> int \<Rightarrow> real \<Rightarrow> real \<Rightarrow> site list \<Rightarrow> sched_state \<Rightarrow>
   error + sched_state" where
  "greedy_loop geodesic start available_robots time_window_days vessel_speed_knots
     vessel_day_rate [] st = Inr st"
| "greedy_loop geodesic start available_robots time_window_days vessel_speed_knots
     vessel_day_rate (s # rest) st =
     (if remaining_budget st \<le> 0 then Inr st
      else case schedule_site geodesic start available_robots time_window_days
                  vessel_speed_knots vessel_day_rate s st of
             Inl e \<Rightarrow> Inl e
           | Inr st' \<Rightarrow> greedy_loop geodesic start available_robots time_window_days
                          vessel_speed_knots vessel_day_rate rest st')"

text \<open>
  \<open>df.sort_values(key, ascending=False)\<close>: \<open>KeyError\<close> on a frame without the column,
  else the rows by descending key.
\<close>

definition sort_values_desc :: "'a list \<Rightarrow> string \<Rightarrow> ('a \<Rightarrow> real) \<Rightarrow> error + 'a list" where
  "sort_values_desc df key field =
     bind_err (column df key field) (\<lambda>_. Inr (sort_key (\<lambda>row. - field row) df))"

record statistics =
  total_missions :: nat
  total_cost_usd :: real
  remaining_budget_usd :: real
  budget_utilization_percent :: real
  num_sites_surveyed :: nat
  num_robots_used :: nat
  coverage_percent :: real
  avg_mission_cost_usd :: real

record schedule_result =
  result_missions :: "mission list"
  result_statistics :: statistics

text \<open>
  \<open>greedy_mission_scheduler\<close>, with the geodesic function, the value of
  \<open>datetime.now()\<close> and the two lists the optimizer was constructed from as parameters.
\<close>

definition greedy_mission_scheduler ::
  "geodesic_km \<Rightarrow> datetime \<Rightarrow> robot list \<Rightarrow> site list \<Rightarrow> int \<Rightarrow> real \<Rightarrow> real \<Rightarrow> real \<Rightarrow> string \<Rightarrow>
   error + schedule_result" where
  "greedy_mission_scheduler geodesic now robots sites time_window_days budget_usd
     vessel_speed_knots vessel_day_rate prioritize_by =
     bind_err (column robots ''status'' status) (\<lambda>_.
       let available_robots = filter (\<lambda>r. status r = ''Available'') robots;
           scheds = map (\<lambda>rid. (rid, \<lparr>available_from = now, schedule_missions = []\<rparr>))
                      (dict_keys_of (map robot_id available_robots))
       in
       bind_err (if prioritize_by = ''score''
                 then sort_values_desc sites ''mineral_concentration'' mineral_concentration
                 else sort_values_desc sites ''estimated_value_millions''
                        estimated_value_millions) (\<lambda>sites_sorted.
       bind_err (greedy_loop geodesic now available_robots time_window_days
                   vessel_speed_knots vessel_day_rate sites_sorted
                   \<lparr>missions = [], remaining_budget = budget_usd,
                    robot_schedules = scheds\<rparr>) (\<lambda>st.
         let ms = missions st;
             total_cost = budget_usd - remaining_budget st;
             n_sites = length (remdups (map mission_site_id ms));
             n_robots = length (remdups (map mission_robot_id ms))
         in if length sites = 0 then Inl ZeroDivisionError
            else
              let coverage = (real n_sites / real (length sites)) * 100
              in if budget_usd = 0 then Inl ZeroDivisionError
                 else Inr \<lparr>result_missions = ms,
                           result_statistics =
                             \<lparr>total_missions = length ms,
                              total_cost_usd = py_round total_cost 2,
                              remaining_budget_usd = py_round (remaining_budget st) 2,
                              budget_utilization_percent =
                                py_round ((total_cost / budget_usd) * 100) 2,
                              num_sites_surveyed = n_sites,
                              num_robots_used = n_robots,
                              coverage_percent = py_round coverage 2,
                              avg_mission_cost_usd =
                                (if ms \<noteq> [] then py_round (total_cost / real (length ms)) 2
                                 else 0)\<rparr>\<rparr>)))"


section \<open>Concrete inputs\<close>

text \<open>
  A weight dict over the seven criteria, and sites and robots for the concrete runs. The
  robots are stationed at the sites (all at latitude 0, longitude 0), where the geodesic
  distance is 0; distances between distinct points are not needed and not modelled.
\<close>

definition criteria_weights ::
  "real \<Rightarrow> real \<Rightarrow> real \<Rightarrow> real \<Rightarrow> real \<Rightarrow> real \<Rightarrow> real \<Rightarrow> (string \<times> real) list" where
  "criteria_weights w_min w_dep w_dis w_env w_val w_ter w_qua =
     [(''mineral_concentration'', w_min),
      (''depth'', w_dep),
      (''distance_from_port'', w_dis),
      (''environmental_sensitivity'', w_env),
      (''estimated_value'', w_val),
      (''terrain_difficulty'', w_ter),
      (''survey_data_quality'', w_qua)]"

definition example_site :: "string \<Rightarrow> real \<Rightarrow> real \<Rightarrow> real \<Rightarrow> site" where
  "example_site sid conc depth terrain =
     \<lparr>site_id = sid, site_name = sid, latitude = 0, longitude = 0, depth_m = depth,
      distance_from_port_km = depth / 10, mineral_concentration = conc,
      mineral_types = [''Polymetallic Nodules''], estimated_value_millions = conc * 5,
      environmental_sensitivity = terrain, terrain_difficulty = terrain,
      survey_data_quality = conc\<rparr>"

definition example_robot :: "string \<Rightarrow> real \<Rightarrow> real \<Rightarrow> real \<Rightarrow> robot" where
  "example_robot rid speed endurance day_rate =
     \<lparr>robot_id = rid, robot_name = rid, max_depth_m = 12000, endurance_hours = endurance,
      speed_knots = speed,
      sensors = [''side_scan_sonar'', ''multi_beam_echo_sounder'', ''HD_camera''],
      status = ''Available'', current_location = \<lparr>lat = 0, lon = 0\<rparr>,
      day_rate_usd = day_rate\<rparr>"

definition geodesic_same_point :: geodesic_km where
  "geodesic_same_point p q =
     (if p = q then Inr 0 else Inl (ValueError ''distinct points: not modelled''))"

text \<open>The instant \<open>datetime.now()\<close> of the concrete runs: 2026-01-01 00:00.\<close>

definition example_now :: datetime where
  "example_now = 739616 * us_per_day"

section \<open>Properties of results\<close>

text \<open>The composite scores of a scoring result, in the order of its rows.\<close>

definition composite_scores :: "error + scored_site list \<Rightarrow> error + real list" where
  "composite_scores r = map_sum id (map composite_score) r"

text \<open>
  A mission list, in the order of scheduling, is serialised per robot when no mission ends
  after a later mission of the same robot starts.
\<close>

fun no_overlap :: "mission list \<Rightarrow> bool" where
  "no_overlap [] = True"
| "no_overlap (m # ms) =
     ((\<forall>m' \<in> set ms. mission_robot_id m' = mission_robot_id m \<longrightarrow> end_date m \<le> start_date m')
      \<and> no_overlap ms)"

text \<open>The state in which the loop of \<open>greedy_mission_scheduler\<close> starts.\<close>

definition initial_state :: "datetime \<Rightarrow> robot list \<Rightarrow> real \<Rightarrow> sched_state" where
  "initial_state now robots budget_usd =
     \<lparr>missions = [], remaining_budget = budget_usd,
      robot_schedules = map (\<lambda>rid. (rid, \<lparr>available_from = now, schedule_missions = []\<rparr>))
         (dict_keys_of (map robot_id (filter (\<lambda>r. status r = ''Available'') robots)))\<rparr>"

text \<open>
  The invariants of the loop. For the budget: the recorded costs are the roundings of
  costs whose sum is what has been spent, and the remaining budget is not negative. For
  the schedule: the missions are serialised, none ends before it starts, and none ends
  after the time from which its robot is available.
\<close>

definition budget_inv :: "real \<Rightarrow> real list \<Rightarrow> sched_state \<Rightarrow> bool" where
  "budget_inv budget costs st =
     (map cost_usd (missions st) = map (\<lambda>c. py_round c 2) costs \<and>
      sum_list costs = budget - remaining_budget st \<and> 0 \<le> remaining_budget st)"

definition serial_inv :: "sched_state \<Rightarrow> bool" where
  "serial_inv st =
     (no_overlap (missions st) \<and>
      (\<forall>m \<in> set (missions st). start_date m \<le> end_date m \<and>
         (\<forall>(rid, sch) \<in> set (robot_schedules st).
            rid = mission_robot_id m \<longrightarrow> end_date m \<le> available_from sch)))"

section \<open>Auxiliary facts\<close>

subsection \<open>Rounding and normalisation\<close>

lemma round_half_even_ge: "of_int n \<le> x \<Longrightarrow> n \<le> round_half_even x"
proof -
  assume "of_int n \<le> x"
  then have "n \<le> \<lfloor>x\<rfloor>" by (simp add: le_floor_iff)
  then show ?thesis unfolding round_half_even_def Let_def by auto
qed

lemma round_half_even_le: "x \<le> of_int n \<Longrightarrow> round_half_even x \<le> n"
proof -
  assume a: "x \<le> of_int n"
  have f: "\<lfloor>x\<rfloor> \<le> n" using a by (simp add: floor_le_iff)
  show ?thesis
  proof (cases "\<lfloor>x\<rfloor> = n")
    case True
    then have "x - of_int \<lfloor>x\<rfloor> \<le> 0" using a by simp
    then show ?thesis unfolding round_half_even_def Let_def using True by auto
  next
    case False
    then have "\<lfloor>x\<rfloor> + 1 \<le> n" using f by simp
    then show ?thesis unfolding round_half_even_def Let_def by auto
  qed
qed

lemma py_round_ge: "of_int k \<le> x \<Longrightarrow> of_int k \<le> py_round x n"
proof -
  assume a: "of_int k \<le> x"
  have "of_int (k * 10 ^ n) \<le> x * 10 ^ n" using a by simp
  then have "k * 10 ^ n \<le> round_half_even (x * 10 ^ n)" by (rule round_half_even_ge)
  then have "(of_int (k * 10 ^ n) :: real) \<le> of_int (round_half_even (x * 10 ^ n))"
    by (simp only: of_int_le_iff)
  then show ?thesis unfolding py_round_def by (simp add: pos_le_divide_eq)
qed

lemma py_round_le: "x \<le> of_int k \<Longrightarrow> py_round x n \<le> of_int k"
proof -
  assume a: "x \<le> of_int k"
  have "x * 10 ^ n \<le> of_int (k * 10 ^ n)" using a by simp
  then have "round_half_even (x * 10 ^ n) \<le> k * 10 ^ n" by (rule round_half_even_le)
  then have "(of_int (round_half_even (x * 10 ^ n)) :: real) \<le> of_int (k * 10 ^ n)"
    by (simp only: of_int_le_iff)
  then show ?thesis unfolding py_round_def by (simp add: pos_divide_le_eq)
qed

lemma round_half_even_floor: "\<lfloor>x\<rfloor> \<le> round_half_even x \<and> round_half_even x \<le> \<lfloor>x\<rfloor> + 1"
  unfolding round_half_even_def Let_def by simp

lemma round_half_even_mono:
  assumes "x \<le> y"
  shows "round_half_even x \<le> round_half_even y"
proof (cases "\<lfloor>x\<rfloor> = \<lfloor>y\<rfloor>")
  case True
  have "x - of_int \<lfloor>x\<rfloor> \<le> y - of_int \<lfloor>y\<rfloor>" using assms True by simp
  then show ?thesis unfolding round_half_even_def Let_def True by auto
next
  case False
  have "\<lfloor>x\<rfloor> \<le> \<lfloor>y\<rfloor>" using assms by (rule floor_mono)
  with False have "\<lfloor>x\<rfloor> + 1 \<le> \<lfloor>y\<rfloor>" by simp
  with round_half_even_floor [of x] round_half_even_floor [of y] show ?thesis by linarith
qed

lemma py_round_mono: "x \<le> y \<Longrightarrow> py_round x n \<le> py_round y n"
proof -
  assume "x \<le> y"
  then have "x * 10 ^ n \<le> y * 10 ^ n" by simp
  then have "round_half_even (x * 10 ^ n) \<le> round_half_even (y * 10 ^ n)"
    by (rule round_half_even_mono)
  then have "(of_int (round_half_even (x * 10 ^ n)) :: real) \<le> of_int (round_half_even (y * 10 ^ n))"
    by (simp only: of_int_le_iff)
  then show ?thesis unfolding py_round_def by (simp add: divide_right_mono)
qed

lemma round_half_even_err: "\<bar>of_int (round_half_even x) - x\<bar> \<le> 1 / 2"
  unfolding round_half_even_def Let_def by (auto simp: abs_if) linarith+

lemma py_round_err: "\<bar>py_round x n - x\<bar> \<le> 1 / (2 * 10 ^ n)"
proof -
  define e where "e = of_int (round_half_even (x * 10 ^ n)) - x * 10 ^ n"
  have e: "\<bar>e\<bar> \<le> 1 / 2" unfolding e_def by (rule round_half_even_err)
  have "py_round x n - x = e / 10 ^ n"
    unfolding py_round_def e_def by (simp add: field_simps)
  then have "\<bar>py_round x n - x\<bar> = \<bar>e\<bar> / 10 ^ n" by (simp add: abs_divide)
  also have "\<dots> \<le> (1 / 2) / 10 ^ n" using e by (rule divide_right_mono) simp
  finally show ?thesis by simp
qed

lemma normalize_score_bounds:
  "lo \<le> x \<Longrightarrow> x \<le> hi \<Longrightarrow> 0 \<le> normalize_score x lo hi b \<and> normalize_score x lo hi b \<le> 100"
  unfolding normalize_score_def Let_def by (auto simp: field_simps)

lemma norm_in_bounds:
  assumes "x \<in> set xs"
  shows "0 \<le> norm_in (col_range xs) b x \<and> norm_in (col_range xs) b x \<le> 100"
proof -
  have "Min (set xs) \<le> x" "x \<le> Max (set xs)" using assms by simp_all
  then show ?thesis unfolding norm_in_def col_range_def
    using normalize_score_bounds by simp
qed


lemma engine_init_some:
  "d \<noteq> [] \<Longrightarrow> SitePrioritizationEngine (Some d) =
     (if \<bar>sum_list (map snd d) - 1\<bar> \<le> 1 / 100 + 1 / 100000 then Inr \<lparr>weights = d\<rparr>
      else Inl (ValueError ''Weights must sum to 1.0, got {total}''))"
  by (simp add: SitePrioritizationEngine_def validate_weights_def isclose_def default_rtol_def
      bind_err_def Let_def)


lemma score_sites_criteria:
  "sites \<noteq> [] \<Longrightarrow>
   score_sites \<lparr>weights = criteria_weights w1 w2 w3 w4 w5 w6 w7\<rparr> sites =
     Inr (sort_key (\<lambda>r. - composite_score r)
        (map (score_row (col_range (map mineral_concentration sites))
                (col_range (map depth_m sites))
                (col_range (map distance_from_port_km sites))
                (col_range (map environmental_sensitivity sites))
                (col_range (map estimated_value_millions sites))
                (col_range (map terrain_difficulty sites))
                (col_range (map survey_data_quality sites)) w1 w2 w3 w4 w5 w6 w7) sites))"
  by (simp add: score_sites_def column_def dict_get_def criteria_weights_def bind_err_def)

lemma composite_score_row:
  "composite_score (score_row r1 r2 r3 r4 r5 r6 r7 w1 w2 w3 w4 w5 w6 w7 s) =
     py_round (norm_in r1 False (mineral_concentration s) * w1
       + norm_in r2 True (depth_m s) * w2
       + norm_in r3 True (distance_from_port_km s) * w3
       + norm_in r4 True (environmental_sensitivity s) * w4
       + norm_in r5 False (estimated_value_millions s) * w5
       + norm_in r6 True (terrain_difficulty s) * w6
       + norm_in r7 False (survey_data_quality s) * w7) 2"
  by (simp add: score_row_def Let_def site.defs scored_site.defs)

lemma py_round_of_int: "py_round (of_int k) n = of_int k"
proof -
  have "round_half_even (of_int (k * 10 ^ n)) = k * 10 ^ n"
    unfolding round_half_even_def Let_def by (simp only: floor_of_int) simp
  moreover have "(of_int k :: real) * 10 ^ n = of_int (k * 10 ^ n)" by simp
  ultimately have "round_half_even (of_int k * 10 ^ n) = k * 10 ^ n" by (simp only:)
  then show ?thesis unfolding py_round_def by simp
qed

lemma py_round_numeral [simp]: "py_round (numeral k) n = numeral k"
  using py_round_of_int [of "numeral k" n] by simp

lemma py_round_neg_numeral [simp]: "py_round (- numeral k) n = - numeral k"
  using py_round_of_int [of "- numeral k" n] by simp

lemma py_round_zero [simp]: "py_round 0 n = 0"
  using py_round_of_int [of 0 n] by simp

lemma round_half_even_le_half: "x < of_int m + 1 / 2 \<Longrightarrow> round_half_even x \<le> m"
proof -
  assume a: "x < of_int m + 1 / 2"
  have f: "\<lfloor>x\<rfloor> \<le> m" using a by (simp add: floor_le_iff) 
  show ?thesis
  proof (cases "\<lfloor>x\<rfloor> = m")
    case True
    then have "x - of_int \<lfloor>x\<rfloor> < 1 / 2" using a by simp
    then show ?thesis unfolding round_half_even_def Let_def using True by auto
  next
    case False
    then have "\<lfloor>x\<rfloor> + 1 \<le> m" using f by simp
    then show ?thesis unfolding round_half_even_def Let_def by auto
  qed
qed

lemma py_round2_le_101: "x \<le> 101 + 1 / 1000 \<Longrightarrow> py_round x 2 \<le> 101"
proof -
  assume "x \<le> 101 + 1 / 1000"
  then have "x * 10 ^ 2 < of_int 10100 + 1 / 2" by simp
  then have "round_half_even (x * 10 ^ 2) \<le> 10100" by (rule round_half_even_le_half)
  then have "(of_int (round_half_even (x * 10 ^ 2)) :: real) \<le> 10100" by linarith
  then show ?thesis unfolding py_round_def by simp
qed

lemma weighted_sum_bounds:
  fixes a1 :: real
  assumes "0 \<le> a1 \<and> a1 \<le> 100" "0 \<le> a2 \<and> a2 \<le> 100" "0 \<le> a3 \<and> a3 \<le> 100"
    "0 \<le> a4 \<and> a4 \<le> 100" "0 \<le> a5 \<and> a5 \<le> 100" "0 \<le> a6 \<and> a6 \<le> 100"
    "0 \<le> a7 \<and> a7 \<le> 100"
    and "0 \<le> w1" "0 \<le> w2" "0 \<le> w3" "0 \<le> w4" "0 \<le> w5" "0 \<le> w6" "0 \<le> w7"
  shows "0 \<le> a1 * w1 + a2 * w2 + a3 * w3 + a4 * w4 + a5 * w5 + a6 * w6 + a7 * w7"
    and "a1 * w1 + a2 * w2 + a3 * w3 + a4 * w4 + a5 * w5 + a6 * w6 + a7 * w7
         \<le> 100 * (w1 + w2 + w3 + w4 + w5 + w6 + w7)"
proof -
  have p: "0 \<le> a1 * w1" "0 \<le> a2 * w2" "0 \<le> a3 * w3" "0 \<le> a4 * w4" "0 \<le> a5 * w5"
    "0 \<le> a6 * w6" "0 \<le> a7 * w7" using assms by simp_all
  then show "0 \<le> a1 * w1 + a2 * w2 + a3 * w3 + a4 * w4 + a5 * w5 + a6 * w6 + a7 * w7"
    by linarith
  have q: "a1 * w1 \<le> 100 * w1" "a2 * w2 \<le> 100 * w2" "a3 * w3 \<le> 100 * w3"
    "a4 * w4 \<le> 100 * w4" "a5 * w5 \<le> 100 * w5" "a6 * w6 \<le> 100 * w6" "a7 * w7 \<le> 100 * w7"
    using assms by (simp_all add: mult_right_mono)
  then show "a1 * w1 + a2 * w2 + a3 * w3 + a4 * w4 + a5 * w5 + a6 * w6 + a7 * w7
         \<le> 100 * (w1 + w2 + w3 + w4 + w5 + w6 + w7)"
    by simp
qed

lemma score_row_bounds:
  assumes s: "s \<in> set sites"
    and w: "0 \<le> w1" "0 \<le> w2" "0 \<le> w3" "0 \<le> w4" "0 \<le> w5" "0 \<le> w6" "0 \<le> w7"
    and tol: "w1 + w2 + w3 + w4 + w5 + w6 + w7 \<le> 1 + 1 / 100 + 1 / 100000"
  defines "r \<equiv> score_row (col_range (map mineral_concentration sites))
                (col_range (map depth_m sites))
                (col_range (map distance_from_port_km sites))
                (col_range (map environmental_sensitivity sites))
                (col_range (map estimated_value_millions sites))
                (col_range (map terrain_difficulty sites))
                (col_range (map survey_data_quality sites)) w1 w2 w3 w4 w5 w6 w7 s"
  shows "0 \<le> composite_score r \<and> composite_score r \<le> 101
         \<and> (w1 + w2 + w3 + w4 + w5 + w6 + w7 \<le> 1 \<longrightarrow> composite_score r \<le> 100)"
proof -
  define c where "c = norm_in (col_range (map mineral_concentration sites)) False (mineral_concentration s) * w1
       + norm_in (col_range (map depth_m sites)) True (depth_m s) * w2
       + norm_in (col_range (map distance_from_port_km sites)) True (distance_from_port_km s) * w3
       + norm_in (col_range (map environmental_sensitivity sites)) True (environmental_sensitivity s) * w4
       + norm_in (col_range (map estimated_value_millions sites)) False (estimated_value_millions s) * w5
       + norm_in (col_range (map terrain_difficulty sites)) True (terrain_difficulty s) * w6
       + norm_in (col_range (map survey_data_quality sites)) False (survey_data_quality s) * w7"
  have cs: "composite_score r = py_round c 2"
    unfolding r_def c_def by (rule composite_score_row)
  have m: "f s \<in> set (map f sites)" for f :: "site \<Rightarrow> real" using s by simp
  have lo: "0 \<le> c" unfolding c_def
    by (rule weighted_sum_bounds(1)) (rule norm_in_bounds [OF m] w)+
  have hi: "c \<le> 100 * (w1 + w2 + w3 + w4 + w5 + w6 + w7)" unfolding c_def
    by (rule weighted_sum_bounds(2)) (rule norm_in_bounds [OF m] w)+
  have "of_int 0 \<le> py_round c 2" by (rule py_round_ge) (simp add: lo)
  moreover have "py_round c 2 \<le> 101" by (rule py_round2_le_101) (use hi tol in simp)
  moreover have "py_round c 2 \<le> 100" if "w1 + w2 + w3 + w4 + w5 + w6 + w7 \<le> 1"
  proof -
    have "c \<le> of_int 100" using hi that by simp
    then have "py_round c 2 \<le> of_int 100" by (rule py_round_le)
    then show ?thesis by simp
  qed
  ultimately show ?thesis using cs by simp
qed

subsection \<open>Error propagation and the scheduling loop\<close>

lemma bind_err_Inr_iff: "bind_err r f = Inr y \<longleftrightarrow> (\<exists>v. r = Inr v \<and> f v = Inr y)"
  by (cases r) (simp_all add: bind_err_def)

lemma bind_errE:
  assumes "bind_err r f = Inr y"
  obtains v where "r = Inr v" and "f v = Inr y"
  using assms by (cases r) (simp_all add: bind_err_def)

lemma best_robot_loop_source:
  assumes "best_robot_loop av s scheds best = Inr (Some (r, t), sc)"
  shows "fst best = Some (r, t) \<or>
         (\<exists>sch. (robot_id r, sch) \<in> set scheds \<and> t = available_from sch \<and> r \<in> set av)"
  using assms
proof (induction scheds arbitrary: best)
  case Nil
  then show ?case by simp
next
  case (Cons a scheds)
  obtain rid sch where a: "a = (rid, sch)" by (cases a)
  from Cons.prems obtain r0 where r0: "iloc0 (filter (\<lambda>r. robot_id r = rid) av) = Inr r0"
    unfolding a by (auto split: sum.splits)
  then have r0in: "r0 \<in> set av" "robot_id r0 = rid"
    by (auto simp: iloc0_def filter_eq_Cons_iff split: list.splits)
  show ?case
  proof (cases "max_depth_m r0 * (9 / 10) < depth_m s")
    case True
    with Cons.prems r0 have "best_robot_loop av s scheds best = Inr (Some (r, t), sc)"
      unfolding a by simp
    from Cons.IH [OF this] show ?thesis by auto
  next
    case False
    with Cons.prems r0 obtain c where c: "calculate_compatibility_score_simple r0 s = Inr c"
      unfolding a by (auto split: sum.splits)
    show ?thesis
    proof (cases "snd best < c")
      case True
      with Cons.prems r0 False c
      have "best_robot_loop av s scheds (Some (r0, available_from sch), c) = Inr (Some (r, t), sc)"
        unfolding a by simp
      from Cons.IH [OF this] show ?thesis using r0in unfolding a by auto
    next
      case nb: False
      with Cons.prems r0 False c
      have "best_robot_loop av s scheds best = Inr (Some (r, t), sc)"
        unfolding a by simp
      from Cons.IH [OF this] show ?thesis by auto
    qed
  qed
qed

lemma schedule_site_cases:
  assumes "schedule_site geodesic start av tw vs vr s st = Inr st'"
  shows "st' = st \<or>
    (\<exists>r t0 sc transit dur td m.
       best_robot_loop av s (robot_schedules st) (None, - 1) = Inr (Some (r, t0), sc) \<and>
       calculate_transit_time geodesic (lat (current_location r)) (lon (current_location r))
          (latitude s) (longitude s) vs = Inr transit \<and>
       calculate_mission_duration s r 25 = Inr dur \<and>
       timedelta_hours (transit + dur) = Inr td \<and>
       calculate_mission_cost r dur transit vr \<le> remaining_budget st \<and>
       cost_usd m = py_round (calculate_mission_cost r dur transit vr) 2 \<and>
       start_date m = t0 \<and> end_date m = t0 + td \<and> mission_robot_id m = robot_id r \<and>
       st' = commit_mission st m (calculate_mission_cost r dur transit vr) (t0 + td))"
proof -
  from assms obtain best where b: "best_robot_loop av s (robot_schedules st) (None, - 1) = Inr best"
    and rest: "(case fst best of None \<Rightarrow> Inr st
       | Some (best_robot, best_start_time) \<Rightarrow>
           if \<not> 40 \<le> snd best then Inr st
           else
             bind_err (calculate_transit_time geodesic
                         (lat (current_location best_robot)) (lon (current_location best_robot))
                         (latitude s) (longitude s) vs) (\<lambda>transit_time.
             bind_err (calculate_mission_duration s best_robot 25) (\<lambda>mission_duration.
               if remaining_budget st < calculate_mission_cost best_robot mission_duration
                                    transit_time vr then Inr st
                  else
                    bind_err (timedelta_hours (transit_time + mission_duration)) (\<lambda>td.
                    bind_err (datetime_add best_start_time td) (\<lambda>mission_end.
                      if tw < timedelta_days (mission_end - start) then Inr st
                      else
                        Inr (commit_mission st (make_mission (length (missions st)) s best_robot (snd best)
                                  best_start_time mission_end transit_time mission_duration
                                  (calculate_mission_cost best_robot mission_duration
                                    transit_time vr))
                              (calculate_mission_cost best_robot mission_duration
                                    transit_time vr) mission_end)))))) = Inr st'"
    unfolding schedule_site_def [unfolded Let_def] bind_err_Inr_iff by blast
  show ?thesis
  proof (cases "fst best")
    case None
    with rest show ?thesis by simp
  next
    case (Some p)
    obtain r t0 where p: "p = (r, t0)" by (cases p)
    have best: "best = (Some (r, t0), snd best)" using Some p by (cases best) simp
    from b best have b': "best_robot_loop av s (robot_schedules st) (None, - 1)
              = Inr (Some (r, t0), snd best)" by simp
    show ?thesis
    proof (cases "40 \<le> snd best")
      case False
      with rest Some p show ?thesis by simp
    next
      case True
      with rest Some p obtain transit dur where
        tr: "calculate_transit_time geodesic (lat (current_location r)) (lon (current_location r))
          (latitude s) (longitude s) vs = Inr transit"
        and du: "calculate_mission_duration s r 25 = Inr dur"
        and rest2: "(if remaining_budget st < calculate_mission_cost r dur transit vr then Inr st
                  else
                    bind_err (timedelta_hours (transit + dur)) (\<lambda>td.
                    bind_err (datetime_add t0 td) (\<lambda>mission_end.
                      if tw < timedelta_days (mission_end - start) then Inr st
                      else
                        Inr (commit_mission st (make_mission (length (missions st)) s r (snd best)
                                  t0 mission_end transit dur
                                  (calculate_mission_cost r dur transit vr))
                                  (calculate_mission_cost r dur transit vr) mission_end)))) = Inr st'"
        by (auto simp: bind_err_Inr_iff)
      show ?thesis
      proof (cases "remaining_budget st < calculate_mission_cost r dur transit vr")
        case True
        with rest2 show ?thesis by simp
      next
        case nb: False
        with rest2 have r3: "bind_err (timedelta_hours (transit + dur)) (\<lambda>td.
                    bind_err (datetime_add t0 td) (\<lambda>mission_end.
                      if tw < timedelta_days (mission_end - start) then Inr st
                      else
                        Inr (commit_mission st (make_mission (length (missions st)) s r (snd best)
                                  t0 mission_end transit dur
                                  (calculate_mission_cost r dur transit vr))
                                  (calculate_mission_cost r dur transit vr) mission_end))) = Inr st'"
          by simp
        from r3 obtain td where td: "timedelta_hours (transit + dur) = Inr td"
          and r4: "bind_err (datetime_add t0 td) (\<lambda>mission_end.
                      if tw < timedelta_days (mission_end - start) then Inr st
                      else
                        Inr (commit_mission st (make_mission (length (missions st)) s r (snd best)
                                  t0 mission_end transit dur
                                  (calculate_mission_cost r dur transit vr))
                                  (calculate_mission_cost r dur transit vr) mission_end)) = Inr st'"
          by (rule bind_errE)
        from r4 obtain me where me: "datetime_add t0 td = Inr me"
          and rest3: "(if tw < timedelta_days (me - start) then (Inr st :: error + sched_state)
                      else
                        Inr (commit_mission st (make_mission (length (missions st)) s r (snd best)
                                  t0 me transit dur
                                  (calculate_mission_cost r dur transit vr))
                                  (calculate_mission_cost r dur transit vr) me)) = Inr st'"
          by (rule bind_errE)
        from me have me_eq: "me = t0 + td" by (auto simp: datetime_add_def split: if_splits)
        show ?thesis
        proof (cases "tw < timedelta_days (me - start)")
          case True
          with rest3 show ?thesis by simp
        next
          case False
          define m where "m = make_mission (length (missions st)) s r (snd best)
                                  t0 me transit dur (calculate_mission_cost r dur transit vr)"
          from False rest3 have st': "st' = commit_mission st m (calculate_mission_cost r dur transit vr) (t0 + td)"
            by (simp add: m_def me_eq)
          have mf: "cost_usd m = py_round (calculate_mission_cost r dur transit vr) 2"
            "start_date m = t0" "end_date m = t0 + td" "mission_robot_id m = robot_id r"
            by (simp_all add: m_def make_mission_def me_eq)
          have "calculate_mission_cost r dur transit vr \<le> remaining_budget st" using nb by simp
          with b' tr du td mf st' show ?thesis by blast
        qed
      qed
    qed
  qed
qed


lemma schedule_site_budget:
  assumes "schedule_site geodesic start av tw vs vr s st = Inr st'"
    and "budget_inv b costs st"
  shows "\<exists>costs'. budget_inv b costs' st'"
proof -
  from schedule_site_cases [OF assms(1)] show ?thesis
  proof
    assume "st' = st"
    with assms(2) show ?thesis by blast
  next
    assume "\<exists>r t0 sc transit dur td m.
       best_robot_loop av s (robot_schedules st) (None, - 1) = Inr (Some (r, t0), sc) \<and>
       calculate_transit_time geodesic (lat (current_location r)) (lon (current_location r))
          (latitude s) (longitude s) vs = Inr transit \<and>
       calculate_mission_duration s r 25 = Inr dur \<and>
       timedelta_hours (transit + dur) = Inr td \<and>
       calculate_mission_cost r dur transit vr \<le> remaining_budget st \<and>
       cost_usd m = py_round (calculate_mission_cost r dur transit vr) 2 \<and>
       start_date m = t0 \<and> end_date m = t0 + td \<and> mission_robot_id m = robot_id r \<and>
       st' = commit_mission st m (calculate_mission_cost r dur transit vr) (t0 + td)"
    then obtain c m te where c: "c \<le> remaining_budget st" and m: "cost_usd m = py_round c 2"
      and st': "st' = commit_mission st m c te" by blast
    have "budget_inv b (costs @ [c]) st'"
      using assms(2) c m unfolding st' budget_inv_def commit_mission_def by simp
    then show ?thesis by blast
  qed
qed

lemma greedy_loop_budget:
  assumes "greedy_loop geodesic start av tw vs vr ss st = Inr st'"
    and "budget_inv b costs st"
  shows "\<exists>costs'. budget_inv b costs' st'"
  using assms
proof (induction ss arbitrary: st costs)
  case Nil
  then show ?case by auto
next
  case (Cons s ss)
  show ?case
  proof (cases "remaining_budget st \<le> 0")
    case True
    with Cons.prems show ?thesis by auto
  next
    case False
    with Cons.prems(1) obtain st1 where
      s1: "schedule_site geodesic start av tw vs vr s st = Inr st1"
      and s2: "greedy_loop geodesic start av tw vs vr ss st1 = Inr st'"
      by (auto split: sum.splits)
    from schedule_site_budget [OF s1 Cons.prems(2)] obtain c1 where "budget_inv b c1 st1" ..
    from Cons.IH [OF s2 this] show ?thesis .
  qed
qed

lemma sum_round_slack:
  "sum_list (map (\<lambda>c. py_round c 2) costs) \<le> sum_list costs + real (length costs) * (5 / 1000)"
proof (induction costs)
  case Nil
  then show ?case by simp
next
  case (Cons c costs)
  have "\<bar>py_round c 2 - c\<bar> \<le> 5 / 1000" using py_round_err [of c 2] by simp
  then have "py_round c 2 \<le> c + 5 / 1000" by linarith
  with Cons show ?case by (simp add: add_divide_distrib distrib_right)
qed

lemma no_overlap_snoc:
  "no_overlap (ms @ [m]) \<longleftrightarrow>
     no_overlap ms \<and>
     (\<forall>m' \<in> set ms. mission_robot_id m' = mission_robot_id m \<longrightarrow> end_date m' \<le> start_date m)"
  by (induction ms) auto

lemma timedelta_hours_nonneg:
  assumes "0 \<le> h" and "timedelta_hours h = Inr td"
  shows "0 \<le> td"
proof -
  have "of_int 0 \<le> h * 3600000000" using assms(1) by simp
  then have "0 \<le> round_half_even (h * 3600000000)" by (rule round_half_even_ge)
  with assms(2) show ?thesis by (auto simp: timedelta_hours_def Let_def split: if_splits)
qed

lemma transit_nonneg:
  assumes "calculate_transit_time geodesic a b c d vs = Inr t"
    and "0 < vs" and "\<forall>p q km. geodesic p q = Inr km \<longrightarrow> 0 \<le> km"
  shows "0 \<le> t"
  using assms unfolding calculate_transit_time_def
  by (auto elim!: bind_errE simp: Let_def split: if_splits)

lemma duration_nonneg:
  assumes "calculate_mission_duration s r a = Inr d"
    and "0 \<le> a" "0 < speed_knots r" "0 \<le> endurance_hours r" "0 \<le> depth_m s"
      "0 \<le> terrain_difficulty s"
  shows "0 \<le> d"
  using assms unfolding calculate_mission_duration_def
  by (auto simp: Let_def split: if_splits)

lemma schedule_site_serial:
  assumes step: "schedule_site geodesic start av tw vs vr s st = Inr st'"
    and inv: "serial_inv st"
    and vs: "0 < vs"
    and geo: "\<forall>p q km. geodesic p q = Inr km \<longrightarrow> 0 \<le> km"
    and av: "\<forall>r \<in> set av. 0 < speed_knots r \<and> 0 \<le> endurance_hours r"
    and s: "0 \<le> depth_m s \<and> 0 \<le> terrain_difficulty s"
  shows "serial_inv st'"
proof -
  from schedule_site_cases [OF step] show ?thesis
  proof
    assume "st' = st"
    with inv show ?thesis by simp
  next
    assume "\<exists>r t0 sc transit dur td m.
       best_robot_loop av s (robot_schedules st) (None, - 1) = Inr (Some (r, t0), sc) \<and>
       calculate_transit_time geodesic (lat (current_location r)) (lon (current_location r))
          (latitude s) (longitude s) vs = Inr transit \<and>
       calculate_mission_duration s r 25 = Inr dur \<and>
       timedelta_hours (transit + dur) = Inr td \<and>
       calculate_mission_cost r dur transit vr \<le> remaining_budget st \<and>
       cost_usd m = py_round (calculate_mission_cost r dur transit vr) 2 \<and>
       start_date m = t0 \<and> end_date m = t0 + td \<and> mission_robot_id m = robot_id r \<and>
       st' = commit_mission st m (calculate_mission_cost r dur transit vr) (t0 + td)"
    then obtain r t0 sc transit dur td m c where
      best: "best_robot_loop av s (robot_schedules st) (None, - 1) = Inr (Some (r, t0), sc)"
      and tr: "calculate_transit_time geodesic (lat (current_location r)) (lon (current_location r))
          (latitude s) (longitude s) vs = Inr transit"
      and du: "calculate_mission_duration s r 25 = Inr dur"
      and td: "timedelta_hours (transit + dur) = Inr td"
      and m: "start_date m = t0" "end_date m = t0 + td" "mission_robot_id m = robot_id r"
      and st': "st' = commit_mission st m c (t0 + td)" by blast
    from best_robot_loop_source [OF best] obtain sch where
      sch: "(robot_id r, sch) \<in> set (robot_schedules st)" "t0 = available_from sch"
      and rin: "r \<in> set av" by auto
    have "0 \<le> transit" by (rule transit_nonneg [OF tr vs geo])
    moreover have "0 \<le> dur" using duration_nonneg [OF du] av rin s by simp
    ultimately have "0 \<le> td" using timedelta_hours_nonneg [OF _ td] by simp
    have before: "end_date m' \<le> t0" if "m' \<in> set (missions st)"
      "mission_robot_id m' = robot_id r" for m'
      using inv that sch unfolding serial_inv_def by fastforce
    have 1: "no_overlap (missions st')"
      unfolding st' commit_mission_def using inv before m
      by (simp add: no_overlap_snoc serial_inv_def)
    have 2: "start_date m' \<le> end_date m'" if "m' \<in> set (missions st')" for m'
      using that inv m \<open>0 \<le> td\<close> unfolding st' commit_mission_def serial_inv_def by auto
    have 3: "end_date m' \<le> available_from sch'" if "m' \<in> set (missions st')"
      "(mission_robot_id m', sch') \<in> set (robot_schedules st')" for m' sch'
    proof -
      from that(2) obtain sch0 where
        s0: "(mission_robot_id m', sch0) \<in> set (robot_schedules st)"
        and s1: "sch' = (if mission_robot_id m' = robot_id r
                         then \<lparr>available_from = t0 + td,
                               schedule_missions = schedule_missions sch0 @ [m]\<rparr>
                         else sch0)"
        unfolding st' commit_mission_def update_schedule_def m by (auto split: if_splits)
      show ?thesis
      proof (cases "m' = m")
        case True
        then show ?thesis using s1 m by simp
      next
        case False
        then have old: "m' \<in> set (missions st)" using that(1)
          unfolding st' commit_mission_def by simp
        show ?thesis
        proof (cases "mission_robot_id m' = robot_id r")
          case True
          with before [OF old] s1 \<open>0 \<le> td\<close> show ?thesis by simp
        next
          case False
          with s1 have "sch' = sch0" by simp
          with inv old s0 show ?thesis unfolding serial_inv_def by fastforce
        qed
      qed
    qed
    show ?thesis unfolding serial_inv_def using 1 2 3 by auto
  qed
qed

lemma greedy_loop_serial:
  assumes "greedy_loop geodesic start av tw vs vr ss st = Inr st'"
    and "serial_inv st"
    and "0 < vs"
    and "\<forall>p q km. geodesic p q = Inr km \<longrightarrow> 0 \<le> km"
    and "\<forall>r \<in> set av. 0 < speed_knots r \<and> 0 \<le> endurance_hours r"
    and "\<forall>s \<in> set ss. 0 \<le> depth_m s \<and> 0 \<le> terrain_difficulty s"
  shows "serial_inv st'"
  using assms
proof (induction ss arbitrary: st)
  case Nil
  then show ?case by simp
next
  case (Cons s ss)
  show ?case
  proof (cases "remaining_budget st \<le> 0")
    case True
    with Cons.prems show ?thesis by simp
  next
    case False
    with Cons.prems(1) obtain st1 where
      s1: "schedule_site geodesic start av tw vs vr s st = Inr st1"
      and s2: "greedy_loop geodesic start av tw vs vr ss st1 = Inr st'"
      by (auto split: sum.splits)
    have "serial_inv st1"
      by (rule schedule_site_serial [OF s1 Cons.prems(2) Cons.prems(3) Cons.prems(4) Cons.prems(5)])
         (use Cons.prems(6) in simp)
    from Cons.IH [OF s2 this Cons.prems(3) Cons.prems(4) Cons.prems(5)] Cons.prems(6)
    show ?thesis by simp
  qed
qed

lemma scheduler_Inr:
  assumes "greedy_mission_scheduler geodesic now robots sites tw budget vs vr p = Inr res"
  obtains st ss where "set ss = set sites"
    and "greedy_loop geodesic now (filter (\<lambda>r. status r = ''Available'') robots) tw vs vr ss
           (initial_state now robots budget) = Inr st"
    and "result_missions res = missions st"
    and "remaining_budget_usd (result_statistics res) = py_round (remaining_budget st) 2"
    and "total_cost_usd (result_statistics res) = py_round (budget - remaining_budget st) 2"
proof -
  define f :: "site \<Rightarrow> real"
    where "f = (if p = ''score'' then mineral_concentration else estimated_value_millions)"
  define ss where "ss = sort_key (\<lambda>row. - f row) sites"
  have sorted: "(if p = ''score''
                 then sort_values_desc sites ''mineral_concentration'' mineral_concentration
                 else sort_values_desc sites ''estimated_value_millions''
                        estimated_value_millions) = Inr ss" if "sites \<noteq> []"
    using that by (simp add: sort_values_desc_def column_def bind_err_def ss_def f_def)
  have ne: "sites \<noteq> []"
    using assms
    by (auto simp: greedy_mission_scheduler_def sort_values_desc_def column_def bind_err_def
        Let_def split: if_splits sum.splits)
  from assms obtain st where
    loop: "greedy_loop geodesic now (filter (\<lambda>r. status r = ''Available'') robots) tw vs vr ss
           (initial_state now robots budget) = Inr st"
    and res: "res = \<lparr>result_missions = missions st,
                           result_statistics =
                             \<lparr>total_missions = length (missions st),
                              total_cost_usd = py_round (budget - remaining_budget st) 2,
                              remaining_budget_usd = py_round (remaining_budget st) 2,
                              budget_utilization_percent =
                                py_round (((budget - remaining_budget st) / budget) * 100) 2,
                              num_sites_surveyed = length (remdups (map mission_site_id (missions st))),
                              num_robots_used = length (remdups (map mission_robot_id (missions st))),
                              coverage_percent = py_round ((real (length (remdups (map mission_site_id (missions st)))) / real (length sites)) * 100) 2,
                              avg_mission_cost_usd =
                                (if missions st \<noteq> [] then py_round ((budget - remaining_budget st) / real (length (missions st))) 2
                                 else 0)\<rparr>\<rparr>"
    unfolding greedy_mission_scheduler_def [unfolded Let_def] sorted [OF ne]
      initial_state_def [symmetric]
    by (auto simp: bind_err_Inr_iff column_def split: if_splits)
  have "set ss = set sites" by (simp add: ss_def)
  from that [OF this loop] res show thesis by simp
qed

lemma initial_budget_inv: "0 \<le> b \<Longrightarrow> budget_inv b [] (initial_state now robots b)"
  by (simp add: budget_inv_def initial_state_def)

lemma initial_serial_inv: "serial_inv (initial_state now robots b)"
  by (simp add: serial_inv_def initial_state_def)

lemma greedy_loop_no_budget:
  "remaining_budget st \<le> 0 \<Longrightarrow> greedy_loop geodesic start av tw vs vr ss st = Inr st"
  by (cases ss) simp_all

text \<open>
  The definitions that a concrete run of the scheduler unfolds.
\<close>

lemmas eval_defs = greedy_mission_scheduler_def column_def bind_err_def dict_keys_of_def
  sort_values_desc_def schedule_site_def iloc0_def calculate_compatibility_score_simple_def
  calculate_transit_time_def calculate_mission_duration_def calculate_mission_cost_def
  timedelta_hours_def datetime_add_def timedelta_days_def us_per_day_def datetime_max_def
  commit_mission_def make_mission_def update_schedule_def geodesic_same_point_def
  example_robot_def example_site_def example_now_def py_round_def round_half_even_def Let_def

subsection \<open>Compatibility\<close>

lemma depth_points_mono:
  assumes "m1 \<le> m2" and "depth_points (r\<lparr>max_depth_m := m1\<rparr>) s = Inr a"
  shows "\<exists>b. depth_points (r\<lparr>max_depth_m := m2\<rparr>) s = Inr b \<and> a \<le> b"
proof (cases "depth_m s \<le> m2 * (9 / 10)")
  case True
  then have "depth_points (r\<lparr>max_depth_m := m2\<rparr>) s = Inr 40"
    by (simp add: depth_points_def check_depth_compatibility_def)
  moreover have "a \<le> 40" using assms(2)
    by (auto simp: depth_points_def check_depth_compatibility_def Let_def split: if_splits)
  ultimately show ?thesis by simp
next
  case False
  then have f1: "\<not> depth_m s \<le> m1 * (9 / 10)" using assms(1) by simp
  from f1 assms(2) have d0: "depth_m s \<noteq> 0"
    and a: "a = min 40 (m1 / depth_m s * 40)"
    by (auto simp: depth_points_def check_depth_compatibility_def Let_def split: if_splits)
  have b: "depth_points (r\<lparr>max_depth_m := m2\<rparr>) s = Inr (min 40 (m2 / depth_m s * 40))"
    using False d0 by (simp add: depth_points_def check_depth_compatibility_def)
  have "min 40 (m1 / depth_m s * 40) \<le> min 40 (m2 / depth_m s * 40)"
  proof (cases "0 < depth_m s")
    case True
    then have "m1 / depth_m s \<le> m2 / depth_m s" using assms(1) by (simp add: divide_right_mono)
    then have "m1 / depth_m s * 40 \<le> m2 / depth_m s * 40" by (rule mult_right_mono) simp
    then show ?thesis by (rule min.mono [OF order_refl])
  next
    case neg: False
    with d0 have dn: "depth_m s < 0" by simp
    have "m2 * (9 / 10) < depth_m s" using False by simp
    then have "m2 < depth_m s" using dn by simp
    then have "1 < m2 / depth_m s" using dn by (simp add: neg_less_divide_eq)
    then have "1 * 40 \<le> m2 / depth_m s * 40" by (intro mult_right_mono) simp_all
    then have "40 \<le> m2 / depth_m s * 40" by (simp only: mult_1)
    then have "min 40 (m2 / depth_m s * 40) = 40" by (rule min_absorb1)
    then show ?thesis by (simp only: min.cobounded1)
  qed
  with a b show ?thesis by simp
qed

lemma depth_points_defined:
  "depth_m s \<noteq> 0 \<or> 0 \<le> max_depth_m r \<Longrightarrow> \<exists>a. depth_points r s = Inr a"
  by (auto simp: depth_points_def check_depth_compatibility_def)

lemma facets_ignore_depth_rating:
  "sensor_points (r\<lparr>max_depth_m := m\<rparr>) s = sensor_points r s"
  "status_points (r\<lparr>max_depth_m := m\<rparr>) = status_points r"
  by (simp_all add: sensor_points_def status_points_def check_sensor_compatibility_def
      check_status_compatibility_def)

lemma first_row_where_eq:
  "first_row_where df key field v =
     (if df = [] then Inl (KeyError key)
      else case filter (\<lambda>row. field row = v) df of [] \<Rightarrow> Inl IndexError | x # _ \<Rightarrow> Inr x)"
  by (simp add: first_row_where_def column_def bind_err_def iloc0_def)

lemma first_row_where_absent:
  "v \<notin> field ` set df \<Longrightarrow>
   first_row_where df key field v = Inl (if df = [] then KeyError key else IndexError)"
proof -
  assume "v \<notin> field ` set df"
  then have "filter (\<lambda>row. field row = v) df = []" by (auto simp: filter_empty_conv)
  then show ?thesis by (simp add: first_row_where_eq)
qed

lemma first_row_where_present:
  assumes "v \<in> field ` set df"
  obtains row where "first_row_where df key field v = Inr row"
proof -
  from assms have "filter (\<lambda>row. field row = v) df \<noteq> []"
    by (auto simp: filter_empty_conv)
  then obtain x xs where "filter (\<lambda>row. field row = v) df = x # xs"
    by (cases "filter (\<lambda>row. field row = v) df") simp_all
  moreover from assms have "df \<noteq> []" by auto
  ultimately have "first_row_where df key field v = Inr x"
    by (simp add: first_row_where_eq)
  then show thesis by (rule that)
qed

lemma compatibility_score_results:
  "(\<exists>a. calculate_compatibility_score r s = Inr a)
   \<or> calculate_compatibility_score r s = Inl ZeroDivisionError"
  by (simp add: calculate_compatibility_score_def depth_points_def bind_err_def)


lemma detailed_compatibility_found:
  assumes r: "first_row_where robots ''robot_id'' robot_id rid = Inr r"
    and s: "first_row_where sites ''site_id'' site_id sid = Inr s"
  shows "(\<exists>c. get_detailed_compatibility robots sites rid sid = Inr c)
      \<or> get_detailed_compatibility robots sites rid sid = Inl ZeroDivisionError"
proof -
  from compatibility_score_results [of r s] show ?thesis
  proof
    assume "\<exists>a. calculate_compatibility_score r s = Inr a"
    then obtain a where a: "calculate_compatibility_score r s = Inr a" ..
    have "\<exists>c. get_detailed_compatibility robots sites rid sid = Inr c"
      unfolding get_detailed_compatibility_def r s by (simp add: bind_err_def Let_def a)
    then show ?thesis ..
  next
    assume z: "calculate_compatibility_score r s = Inl ZeroDivisionError"
    have "get_detailed_compatibility robots sites rid sid = Inl ZeroDivisionError"
      unfolding get_detailed_compatibility_def r s by (simp add: bind_err_def Let_def z)
    then show ?thesis ..
  qed
qed

lemma example_ids:
  "robot_id ` set [example_robot ''R1'' 3 10 10001] = {''R1''}"
  "site_id ` set [example_site ''S1'' 50 1000 0] = {''S1''}"
  by (simp_all add: example_robot_def example_site_def)

lemma example_score:
  "depth_m (example_site sid c d t) \<noteq> 0 \<Longrightarrow>
   calculate_compatibility_score ((example_robot rid v e p)\<lparr>max_depth_m := m\<rparr>)
     (example_site sid c d t)
   = Inr (py_round (0 + (if d \<le> m * (9 / 10) then 40 else min 40 (m / d * 40)) + 40 + 20) 2)"
  by (simp add: calculate_compatibility_score_def depth_points_def check_depth_compatibility_def
      sensor_points_def check_sensor_compatibility_def required_sensors_of_def
      SENSOR_REQUIREMENTS_def status_points_def check_status_compatibility_def
      example_robot_def example_site_def bind_err_def)

section \<open>The scoring engine: claims C4 to C7\<close>

text \<open>
  Claim C4, as stated, fails: the constructor given seven zero weights raises the
  \<open>ValueError\<close> of \<open>_validate_weights\<close>, since their sum 0 is not close to 1.
\<close>

theorem zero_weights_rejected:
  "SitePrioritizationEngine (Some (criteria_weights 0 0 0 0 0 0 0))
     = Inl (ValueError ''Weights must sum to 1.0, got {total}'')"
  by (simp add: criteria_weights_def engine_init_some)

text \<open>
  Claim C4, amended: the fallback is the application's. Before it constructs the engine,
  app.py replaces raw slider weights that are all zero by \<open>1/7\<close> for each of the seven
  criteria; constructing the engine with these succeeds and the engine holds them.
\<close>

theorem zero_raw_weights_fallback:
  "app_normalize_weights (criteria_weights 0 0 0 0 0 0 0)
     = criteria_weights (1 / 7) (1 / 7) (1 / 7) (1 / 7) (1 / 7) (1 / 7) (1 / 7)
   \<and> SitePrioritizationEngine (Some (app_normalize_weights (criteria_weights 0 0 0 0 0 0 0)))
     = Inr \<lparr>weights = criteria_weights (1 / 7) (1 / 7) (1 / 7) (1 / 7) (1 / 7) (1 / 7) (1 / 7)\<rparr>"
  by (simp add: app_normalize_weights_def criteria_weights_def engine_init_some)

text \<open>
  Claim C5, as stated, fails twice. A weight set summing to 1.010005 is not within 0.01 of
  1.0, yet construction succeeds: \<open>numpy.isclose\<close> adds its default relative tolerance
  \<open>1e-05 * 1.0\<close> to \<open>atol=0.01\<close>. And the empty dict, whose sum is 0, is falsy, so
  the defaults are taken and construction succeeds.
\<close>

theorem weights_tolerance_counterexample:
  "SitePrioritizationEngine
     (Some (criteria_weights (210005 / 1000000) (15 / 100) (10 / 100) (15 / 100) (20 / 100)
        (10 / 100) (10 / 100)))
   = Inr \<lparr>weights = criteria_weights (210005 / 1000000) (15 / 100) (10 / 100) (15 / 100)
        (20 / 100) (10 / 100) (10 / 100)\<rparr>
   \<and> \<not> \<bar>sum_list (map snd (criteria_weights (210005 / 1000000) (15 / 100) (10 / 100) (15 / 100)
        (20 / 100) (10 / 100) (10 / 100))) - 1\<bar> \<le> 1 / 100
   \<and> SitePrioritizationEngine (Some []) = Inr \<lparr>weights = DEFAULT_WEIGHTS\<rparr>
   \<and> \<not> \<bar>sum_list (map snd ([] :: (string \<times> real) list)) - 1\<bar> \<le> 1 / 100"
  by (simp add: criteria_weights_def engine_init_some)
     (simp add: SitePrioritizationEngine_def validate_weights_def DEFAULT_WEIGHTS_def isclose_def
       default_rtol_def bind_err_def)

text \<open>
  Claim C5, amended: for a supplied non-empty weight set, construction succeeds when the
  sum is within \<open>0.01 + 0.00001\<close> of 1.0 (so whenever it is within 0.01) and raises the
  \<open>ValueError\<close> when it is farther; a successful construction keeps the supplied
  weights unchanged, so nothing is renormalised.
\<close>

theorem weights_validated_not_renormalized:
  assumes "w \<noteq> []"
  shows "(\<bar>sum_list (map snd w) - 1\<bar> \<le> 1 / 100 + 1 / 100000
            \<longrightarrow> SitePrioritizationEngine (Some w) = Inr \<lparr>weights = w\<rparr>)
       \<and> (1 / 100 + 1 / 100000 < \<bar>sum_list (map snd w) - 1\<bar>
            \<longrightarrow> SitePrioritizationEngine (Some w)
                  = Inl (ValueError ''Weights must sum to 1.0, got {total}''))
       \<and> (\<bar>sum_list (map snd w) - 1\<bar> \<le> 1 / 100
            \<longrightarrow> SitePrioritizationEngine (Some w) = Inr \<lparr>weights = w\<rparr>)"
  by (simp add: engine_init_some [OF assms])

text \<open>
  Claim C5, two instances of the amended statement: the sums 1 and 3/4.
\<close>

theorem weights_validated_not_renormalized_witness:
  "criteria_weights (1 / 2) (1 / 2) 0 0 0 0 0 \<noteq> []
   \<and> SitePrioritizationEngine (Some (criteria_weights (1 / 2) (1 / 2) 0 0 0 0 0))
       = Inr \<lparr>weights = criteria_weights (1 / 2) (1 / 2) 0 0 0 0 0\<rparr>
   \<and> criteria_weights (1 / 2) (1 / 4) 0 0 0 0 0 \<noteq> []
   \<and> SitePrioritizationEngine (Some (criteria_weights (1 / 2) (1 / 4) 0 0 0 0 0))
       = Inl (ValueError ''Weights must sum to 1.0, got {total}'')"
proof -
  have a: "criteria_weights (1 / 2) (1 / 2) 0 0 0 0 0 \<noteq> []"
    and b: "criteria_weights (1 / 2) (1 / 4) 0 0 0 0 0 \<noteq> []"
    by (simp_all add: criteria_weights_def)
  have sa: "sum_list (map snd (criteria_weights (1 / 2) (1 / 2) 0 0 0 0 0)) = 1"
    and sb: "sum_list (map snd (criteria_weights (1 / 2) (1 / 4) 0 0 0 0 0)) = 3 / 4"
    by (simp_all add: criteria_weights_def)
  from weights_validated_not_renormalized [OF a] weights_validated_not_renormalized [OF b]
  show ?thesis unfolding sa sb using a b by simp
qed

text \<open>
  Claim C6, as stated, fails. With sites A (best on every criterion) and B (worst on
  every criterion), the non-negative weights 0.21, 0.15, 0.10, 0.15, 0.20, 0.10, 0.10 sum
  to 1.01, are accepted, and give A the composite score 101. With sites P and Q, the
  weights 2, -1, 0, 0, 0, 0, 0 sum to 1.0, are accepted, and give the scores 200 and -100.
\<close>

theorem composite_score_out_of_range:
  "composite_scores (bind_err (SitePrioritizationEngine
        (Some (criteria_weights (21 / 100) (15 / 100) (10 / 100) (15 / 100) (20 / 100)
           (10 / 100) (10 / 100))))
      (\<lambda>e. score_sites e [example_site ''A'' 90 1000 10, example_site ''B'' 10 5000 90]))
     = Inr [101, 0]
   \<and> composite_scores (bind_err (SitePrioritizationEngine
        (Some (criteria_weights 2 (- 1) 0 0 0 0 0)))
      (\<lambda>e. score_sites e [example_site ''P'' 90 5000 10, example_site ''Q'' 10 1000 90]))
     = Inr [200, - 100]"
proof -
  have 1: "SitePrioritizationEngine
        (Some (criteria_weights (21 / 100) (15 / 100) (10 / 100) (15 / 100) (20 / 100)
           (10 / 100) (10 / 100)))
     = Inr \<lparr>weights = criteria_weights (21 / 100) (15 / 100) (10 / 100) (15 / 100) (20 / 100)
           (10 / 100) (10 / 100)\<rparr>"
    by (simp add: criteria_weights_def engine_init_some)
  have 2: "SitePrioritizationEngine (Some (criteria_weights 2 (- 1) 0 0 0 0 0))
     = Inr \<lparr>weights = criteria_weights 2 (- 1) 0 0 0 0 0\<rparr>"
    by (simp add: criteria_weights_def engine_init_some)
  show ?thesis
    unfolding 1 2
    by (simp add: bind_err_def score_sites_criteria composite_scores_def composite_score_row
        col_range_def norm_in_def normalize_score_def example_site_def)
qed

text \<open>
  Claim C6, amended: for non-negative weights over the seven criteria with which the
  engine can be constructed, and a non-empty site list, \<open>score_sites\<close> returns a row per
  site and every composite score lies in [0, 101]; it lies in [0, 100] when the weights
  sum to at most 1.
\<close>

theorem score_sites_composite_range:
  assumes ne: "sites \<noteq> []"
    and w: "0 \<le> w1" "0 \<le> w2" "0 \<le> w3" "0 \<le> w4" "0 \<le> w5" "0 \<le> w6" "0 \<le> w7"
    and e: "SitePrioritizationEngine (Some (criteria_weights w1 w2 w3 w4 w5 w6 w7)) = Inr e"
  shows "\<exists>rows. score_sites e sites = Inr rows \<and> length rows = length sites \<and>
           (\<forall>r \<in> set rows. 0 \<le> composite_score r \<and> composite_score r \<le> 101 \<and>
              (w1 + w2 + w3 + w4 + w5 + w6 + w7 \<le> 1 \<longrightarrow> composite_score r \<le> 100))"
proof -
  have cw: "criteria_weights w1 w2 w3 w4 w5 w6 w7 \<noteq> []"
    and sm: "sum_list (map snd (criteria_weights w1 w2 w3 w4 w5 w6 w7))
               = w1 + w2 + w3 + w4 + w5 + w6 + w7"
    by (simp_all add: criteria_weights_def)
  from e have ee: "e = \<lparr>weights = criteria_weights w1 w2 w3 w4 w5 w6 w7\<rparr>"
    and a: "\<bar>w1 + w2 + w3 + w4 + w5 + w6 + w7 - 1\<bar> \<le> 1 / 100 + 1 / 100000"
    unfolding engine_init_some [OF cw] sm by (auto split: if_splits)
  have "w1 + w2 + w3 + w4 + w5 + w6 + w7 - 1 \<le> \<bar>w1 + w2 + w3 + w4 + w5 + w6 + w7 - 1\<bar>"
    by (rule abs_ge_self)
  then have "w1 + w2 + w3 + w4 + w5 + w6 + w7 - 1 \<le> 1 / 100 + 1 / 100000"
    using a by (rule order_trans)
  then have tol: "w1 + w2 + w3 + w4 + w5 + w6 + w7 \<le> 1 + 1 / 100 + 1 / 100000" by simp
  show ?thesis
    unfolding ee score_sites_criteria [OF ne]
    using score_row_bounds [OF _ w tol, of _ sites] by auto
qed

text \<open>
  Claim C6, an instance of the amended statement: the default weights and two sites.
\<close>

theorem score_sites_composite_range_witness:
  "[example_site ''A'' 90 1000 10, example_site ''B'' 10 5000 90] \<noteq> []
   \<and> SitePrioritizationEngine (Some DEFAULT_WEIGHTS) = Inr \<lparr>weights = DEFAULT_WEIGHTS\<rparr>
   \<and> (\<exists>rows. score_sites \<lparr>weights = DEFAULT_WEIGHTS\<rparr>
                [example_site ''A'' 90 1000 10, example_site ''B'' 10 5000 90] = Inr rows
        \<and> length rows = 2
        \<and> (\<forall>r \<in> set rows. 0 \<le> composite_score r \<and> composite_score r \<le> 100))"
proof -
  have dw: "DEFAULT_WEIGHTS = criteria_weights (20 / 100) (15 / 100) (10 / 100) (15 / 100)
              (20 / 100) (10 / 100) (10 / 100)"
    by (simp add: DEFAULT_WEIGHTS_def criteria_weights_def)
  have e: "SitePrioritizationEngine (Some (criteria_weights (20 / 100) (15 / 100) (10 / 100)
              (15 / 100) (20 / 100) (10 / 100) (10 / 100)))
            = Inr \<lparr>weights = criteria_weights (20 / 100) (15 / 100) (10 / 100) (15 / 100)
              (20 / 100) (10 / 100) (10 / 100)\<rparr>"
    by (simp add: criteria_weights_def engine_init_some)
  have ne: "[example_site ''A'' 90 1000 10, example_site ''B'' 10 5000 90] \<noteq> []" by simp
  from score_sites_composite_range [OF ne _ _ _ _ _ _ _ e]
  obtain rows where rows: "score_sites \<lparr>weights = criteria_weights (20 / 100) (15 / 100)
        (10 / 100) (15 / 100) (20 / 100) (10 / 100) (10 / 100)\<rparr>
        [example_site ''A'' 90 1000 10, example_site ''B'' 10 5000 90] = Inr rows"
    and len: "length rows = 2"
    and rng: "\<forall>r \<in> set rows. 0 \<le> composite_score r \<and> composite_score r \<le> 100"
    by auto
  from rows len rng have "\<exists>rows. score_sites \<lparr>weights = criteria_weights (20 / 100) (15 / 100)
        (10 / 100) (15 / 100) (20 / 100) (10 / 100) (10 / 100)\<rparr>
        [example_site ''A'' 90 1000 10, example_site ''B'' 10 5000 90] = Inr rows
        \<and> length rows = 2
        \<and> (\<forall>r \<in> set rows. 0 \<le> composite_score r \<and> composite_score r \<le> 100)"
    by blast
  with e ne show ?thesis unfolding dw by (simp only: simp_thms)
qed

text \<open>
  Claim C7: without inversion \<open>normalize_score\<close> is 0 at the minimum and 100 at the
  maximum of a range with \<open>min < max\<close>, and on a degenerate range \<open>min = max\<close> it is
  50 for every value and either direction.
\<close>

theorem normalize_score_endpoints:
  "(min_val < max_val \<longrightarrow>
      normalize_score min_val min_val max_val False = 0 \<and>
      normalize_score max_val min_val max_val False = 100)
   \<and> normalize_score x m m inverse_flag = 50"
  by (simp add: normalize_score_def)

text \<open>
  Claim C7, at the range 2 to 7 and the degenerate range 4 to 4.
\<close>

theorem normalize_score_endpoints_witness:
  "(2 :: real) < 7 \<and> normalize_score 2 2 7 False = 0 \<and> normalize_score 7 2 7 False = 100
   \<and> normalize_score 3 4 4 True = 50"
  using normalize_score_endpoints [of 2 7 3 4 True] by simp

section \<open>The matcher: claims C8 and C9\<close>

text \<open>
  Claim C8: with the site and the robot's other fields fixed, raising \<open>max_depth_m\<close>
  from \<open>m1\<close> to \<open>m2\<close> never lowers \<open>calculate_compatibility_score\<close>: when the score
  for \<open>m1\<close> is returned, so is the score for \<open>m2\<close>, and it is at least as large. The
  score is returned unless the site depth is 0 and the rating is negative, where the
  division raises. Once \<open>max_depth_m\<close> has reached the site depth divided by 0.9, the depth
  facet gives its 40 points and a higher rating leaves the score unchanged.
\<close>

theorem compatibility_monotone_in_max_depth:
  assumes "m1 \<le> m2"
  shows "(\<forall>a. calculate_compatibility_score (r\<lparr>max_depth_m := m1\<rparr>) s = Inr a \<longrightarrow>
           (\<exists>b. calculate_compatibility_score (r\<lparr>max_depth_m := m2\<rparr>) s = Inr b \<and> a \<le> b))
       \<and> (depth_m s \<noteq> 0 \<or> 0 \<le> m1 \<longrightarrow>
           (\<exists>a. calculate_compatibility_score (r\<lparr>max_depth_m := m1\<rparr>) s = Inr a))
       \<and> (depth_m s / (9 / 10) \<le> m1 \<longrightarrow>
           depth_points (r\<lparr>max_depth_m := m1\<rparr>) s = Inr 40 \<and>
           depth_points (r\<lparr>max_depth_m := m2\<rparr>) s = Inr 40 \<and>
           calculate_compatibility_score (r\<lparr>max_depth_m := m2\<rparr>) s
             = calculate_compatibility_score (r\<lparr>max_depth_m := m1\<rparr>) s)"
proof (intro conjI allI impI)
  fix a
  assume "calculate_compatibility_score (r\<lparr>max_depth_m := m1\<rparr>) s = Inr a"
  then obtain d where d: "depth_points (r\<lparr>max_depth_m := m1\<rparr>) s = Inr d"
    and a: "a = py_round (0 + d + sensor_points r s + status_points r) 2"
    unfolding calculate_compatibility_score_def facets_ignore_depth_rating
    by (auto simp: bind_err_def split: sum.splits)
  from depth_points_mono [OF assms d] obtain d' where
    d': "depth_points (r\<lparr>max_depth_m := m2\<rparr>) s = Inr d'" and le: "d \<le> d'" by blast
  have "py_round (0 + d + sensor_points r s + status_points r) 2
          \<le> py_round (0 + d' + sensor_points r s + status_points r) 2"
    by (rule py_round_mono) (use le in simp)
  then show "\<exists>b. calculate_compatibility_score (r\<lparr>max_depth_m := m2\<rparr>) s = Inr b \<and> a \<le> b"
    unfolding calculate_compatibility_score_def facets_ignore_depth_rating d' a
    by (simp add: bind_err_def)
next
  assume "depth_m s \<noteq> 0 \<or> 0 \<le> m1"
  then have "\<exists>a. depth_points (r\<lparr>max_depth_m := m1\<rparr>) s = Inr a"
    by (intro depth_points_defined) simp
  then show "\<exists>a. calculate_compatibility_score (r\<lparr>max_depth_m := m1\<rparr>) s = Inr a"
    unfolding calculate_compatibility_score_def by (auto simp: bind_err_def)
next
  assume t: "depth_m s / (9 / 10) \<le> m1"
  then have 1: "depth_m s \<le> m1 * (9 / 10)" by (simp add: field_simps)
  then have 2: "depth_m s \<le> m2 * (9 / 10)" using assms by simp
  show p1: "depth_points (r\<lparr>max_depth_m := m1\<rparr>) s = Inr 40"
    using 1 by (simp add: depth_points_def check_depth_compatibility_def)
  show p2: "depth_points (r\<lparr>max_depth_m := m2\<rparr>) s = Inr 40"
    using 2 by (simp add: depth_points_def check_depth_compatibility_def)
  show "calculate_compatibility_score (r\<lparr>max_depth_m := m2\<rparr>) s
             = calculate_compatibility_score (r\<lparr>max_depth_m := m1\<rparr>) s"
    unfolding calculate_compatibility_score_def facets_ignore_depth_rating p1 p2 ..
qed

text \<open>
  Claim C8, for a site at 6000 m: ratings 5000 and 6000 below the threshold, 8000 and
  9000 above it.
\<close>

theorem compatibility_monotone_in_max_depth_witness:
  "(5000 :: real) \<le> 6000
   \<and> (\<exists>a b. calculate_compatibility_score
               ((example_robot ''R1'' 3 10 10001)\<lparr>max_depth_m := 5000\<rparr>)
               (example_site ''S1'' 50 6000 0) = Inr a
            \<and> calculate_compatibility_score
               ((example_robot ''R1'' 3 10 10001)\<lparr>max_depth_m := 6000\<rparr>)
               (example_site ''S1'' 50 6000 0) = Inr b
            \<and> a \<le> b)
   \<and> (8000 :: real) \<le> 9000
   \<and> depth_m (example_site ''S1'' 50 6000 0) / (9 / 10) \<le> 8000
   \<and> depth_points ((example_robot ''R1'' 3 10 10001)\<lparr>max_depth_m := 8000\<rparr>)
        (example_site ''S1'' 50 6000 0) = Inr 40
   \<and> calculate_compatibility_score ((example_robot ''R1'' 3 10 10001)\<lparr>max_depth_m := 9000\<rparr>)
        (example_site ''S1'' 50 6000 0)
      = calculate_compatibility_score ((example_robot ''R1'' 3 10 10001)\<lparr>max_depth_m := 8000\<rparr>)
        (example_site ''S1'' 50 6000 0)"
proof -
  have d: "depth_m (example_site ''S1'' 50 6000 0) = 6000" by (simp add: example_site_def)
  have a: "calculate_compatibility_score
               ((example_robot ''R1'' 3 10 10001)\<lparr>max_depth_m := 5000\<rparr>)
               (example_site ''S1'' 50 6000 0) = Inr (9333 / 100)"
    by (simp add: example_score d) (simp add: py_round_def round_half_even_def)
  have h1: "(5000 :: real) \<le> 6000" and h2: "(8000 :: real) \<le> 9000" by simp_all
  have h3: "depth_m (example_site ''S1'' 50 6000 0) / (9 / 10) \<le> 8000" unfolding d by simp
  note m1 = compatibility_monotone_in_max_depth [OF h1, of "example_robot ''R1'' 3 10 10001"
      "example_site ''S1'' 50 6000 0"]
  note m2 = compatibility_monotone_in_max_depth [OF h2, of "example_robot ''R1'' 3 10 10001"
      "example_site ''S1'' 50 6000 0"]
  from m1 [THEN conjunct1, rule_format, OF a] obtain b where
    b: "calculate_compatibility_score
               ((example_robot ''R1'' 3 10 10001)\<lparr>max_depth_m := 6000\<rparr>)
               (example_site ''S1'' 50 6000 0) = Inr b" and le: "9333 / 100 \<le> b"
    by (elim exE conjE)
  from m2 [THEN conjunct2, THEN conjunct2, rule_format, OF h3]
  have s1: "depth_points ((example_robot ''R1'' 3 10 10001)\<lparr>max_depth_m := 8000\<rparr>)
        (example_site ''S1'' 50 6000 0) = Inr 40"
    and s2: "calculate_compatibility_score ((example_robot ''R1'' 3 10 10001)\<lparr>max_depth_m := 9000\<rparr>)
        (example_site ''S1'' 50 6000 0)
      = calculate_compatibility_score ((example_robot ''R1'' 3 10 10001)\<lparr>max_depth_m := 8000\<rparr>)
        (example_site ''S1'' 50 6000 0)"
    by (rule conjunct1, rule conjunct2 [THEN conjunct2])
  show ?thesis
  proof (intro conjI exI)
    show "(5000 :: real) \<le> 6000" by (rule h1)
    show "calculate_compatibility_score
               ((example_robot ''R1'' 3 10 10001)\<lparr>max_depth_m := 5000\<rparr>)
               (example_site ''S1'' 50 6000 0) = Inr (9333 / 100)" by (rule a)
    show "calculate_compatibility_score
               ((example_robot ''R1'' 3 10 10001)\<lparr>max_depth_m := 6000\<rparr>)
               (example_site ''S1'' 50 6000 0) = Inr b" by (rule b)
    show "9333 / 100 \<le> b" by (rule le)
    show "(8000 :: real) \<le> 9000" by (rule h2)
    show "depth_m (example_site ''S1'' 50 6000 0) / (9 / 10) \<le> 8000" by (rule h3)
    show "depth_points ((example_robot ''R1'' 3 10 10001)\<lparr>max_depth_m := 8000\<rparr>)
        (example_site ''S1'' 50 6000 0) = Inr 40" by (rule s1)
    show "calculate_compatibility_score ((example_robot ''R1'' 3 10 10001)\<lparr>max_depth_m := 9000\<rparr>)
        (example_site ''S1'' 50 6000 0)
      = calculate_compatibility_score ((example_robot ''R1'' 3 10 10001)\<lparr>max_depth_m := 8000\<rparr>)
        (example_site ''S1'' 50 6000 0)" by (rule s2)
  qed
qed

text \<open>
  Claim C9: a \<open>robot_id\<close> or \<open>site_id\<close> that is not in its collection makes
  \<open>get_detailed_compatibility\<close> raise the lookup error of the row selection:
  \<open>IndexError\<close>, or \<open>KeyError\<close> when the collection is empty, and never a partial
  result. When both identifiers are present the result is a full record or the
  computation's \<open>ZeroDivisionError\<close>, a different error, so the lookup failure is told
  apart from a computation error.
\<close>

theorem detailed_compatibility_unknown_id:
  "(rid \<notin> robot_id ` set robots \<longrightarrow>
      get_detailed_compatibility robots sites rid sid
        = Inl (if robots = [] then KeyError ''robot_id'' else IndexError))
   \<and> (rid \<in> robot_id ` set robots \<and> sid \<notin> site_id ` set sites \<longrightarrow>
      get_detailed_compatibility robots sites rid sid
        = Inl (if sites = [] then KeyError ''site_id'' else IndexError))
   \<and> (rid \<in> robot_id ` set robots \<and> sid \<in> site_id ` set sites \<longrightarrow>
      (\<exists>c. get_detailed_compatibility robots sites rid sid = Inr c)
      \<or> get_detailed_compatibility robots sites rid sid = Inl ZeroDivisionError)"
proof (intro conjI impI)
  assume "rid \<notin> robot_id ` set robots"
  then have r: "first_row_where robots ''robot_id'' robot_id rid
                 = Inl (if robots = [] then KeyError ''robot_id'' else IndexError)"
    by (rule first_row_where_absent)
  show "get_detailed_compatibility robots sites rid sid
        = Inl (if robots = [] then KeyError ''robot_id'' else IndexError)"
    unfolding get_detailed_compatibility_def r by (simp add: bind_err_def)
next
  assume a: "rid \<in> robot_id ` set robots \<and> sid \<notin> site_id ` set sites"
  then have "rid \<in> robot_id ` set robots" ..
  then obtain r where r: "first_row_where robots ''robot_id'' robot_id rid = Inr r"
    by (rule first_row_where_present)
  from a have "sid \<notin> site_id ` set sites" ..
  then have s: "first_row_where sites ''site_id'' site_id sid
                   = Inl (if sites = [] then KeyError ''site_id'' else IndexError)"
    by (rule first_row_where_absent)
  show "get_detailed_compatibility robots sites rid sid
        = Inl (if sites = [] then KeyError ''site_id'' else IndexError)"
    unfolding get_detailed_compatibility_def r s by (simp add: bind_err_def)
next
  assume a: "rid \<in> robot_id ` set robots \<and> sid \<in> site_id ` set sites"
  then have "rid \<in> robot_id ` set robots" ..
  then obtain r where r: "first_row_where robots ''robot_id'' robot_id rid = Inr r"
    by (rule first_row_where_present)
  from a have "sid \<in> site_id ` set sites" ..
  then obtain s where s: "first_row_where sites ''site_id'' site_id sid = Inr s"
    by (rule first_row_where_present)
  from r s show "(\<exists>c. get_detailed_compatibility robots sites rid sid = Inr c)
      \<or> get_detailed_compatibility robots sites rid sid = Inl ZeroDivisionError"
    by (rule detailed_compatibility_found)
qed

text \<open>
  Claim C9, for one robot R1 and one site S1: unknown robot, empty roster, unknown site,
  and both known.
\<close>

theorem detailed_compatibility_unknown_id_witness:
  "get_detailed_compatibility [example_robot ''R1'' 3 10 10001] [example_site ''S1'' 50 1000 0]
     ''R9'' ''S1'' = Inl IndexError
   \<and> get_detailed_compatibility [] [example_site ''S1'' 50 1000 0] ''R1'' ''S1''
     = Inl (KeyError ''robot_id'')
   \<and> get_detailed_compatibility [example_robot ''R1'' 3 10 10001]
        [example_site ''S1'' 50 1000 0] ''R1'' ''S9'' = Inl IndexError
   \<and> ((\<exists>c. get_detailed_compatibility [example_robot ''R1'' 3 10 10001]
              [example_site ''S1'' 50 1000 0] ''R1'' ''S1'' = Inr c)
        \<or> get_detailed_compatibility [example_robot ''R1'' 3 10 10001]
              [example_site ''S1'' 50 1000 0] ''R1'' ''S1'' = Inl ZeroDivisionError)"
  using detailed_compatibility_unknown_id [of "''R9''" "[example_robot ''R1'' 3 10 10001]"
      "[example_site ''S1'' 50 1000 0]" "''S1''"]
    detailed_compatibility_unknown_id [of "''R1''" "[]" "[example_site ''S1'' 50 1000 0]" "''S1''"]
    detailed_compatibility_unknown_id [of "''R1''" "[example_robot ''R1'' 3 10 10001]"
      "[example_site ''S1'' 50 1000 0]" "''S9''"]
    detailed_compatibility_unknown_id [of "''R1''" "[example_robot ''R1'' 3 10 10001]"
      "[example_site ''S1'' 50 1000 0]" "''S1''"]
  unfolding example_ids by simp

section \<open>The scheduler: claims C1, C2, C3 and C10\<close>

text \<open>
  Claim C1, as stated, fails twice. One robot at one site, a mission of 8 hours at
  100001 dollars a day costs 33333.666..., which passes the check against the budget
  33333.667; the mission records the cost rounded to 33333.67, above the budget. And with
  the budget -1 no mission is scheduled, so the sum 0 is above the budget.
\<close>

theorem cost_sum_exceeds_budget:
  "map_sum id (\<lambda>res. sum_list (map cost_usd (result_missions res)))
     (greedy_mission_scheduler geodesic_same_point example_now
        [example_robot ''R1'' 3 10 10001] [example_site ''S1'' 50 1000 0]
        180 (33333667 / 1000) 12 75000 ''score'') = Inr (3333367 / 100)
   \<and> (33333667 / 1000 :: real) < 3333367 / 100
   \<and> map_sum id (\<lambda>res. sum_list (map cost_usd (result_missions res)))
     (greedy_mission_scheduler geodesic_same_point example_now
        [example_robot ''R1'' 3 10 10001] [example_site ''S1'' 50 1000 0]
        180 (- 1) 12 75000 ''score'') = Inr 0
   \<and> (- 1 :: real) < 0"
  by (simp add: eval_defs)

text \<open>
  Claim C1, amended: for a budget that is not negative, the sum of \<open>cost_usd\<close> over the
  returned missions is at most the budget plus half a cent per mission. The budget check
  is made on the unrounded costs, whose sum never exceeds the budget: the remaining budget
  reported is not negative and the total cost reported is at most the rounded budget.
\<close>

theorem scheduled_cost_within_budget:
  assumes "0 \<le> budget_usd"
    and "greedy_mission_scheduler geodesic now robots sites time_window_days budget_usd
           vessel_speed_knots vessel_day_rate prioritize_by = Inr res"
  shows "sum_list (map cost_usd (result_missions res))
           \<le> budget_usd + real (length (result_missions res)) * (5 / 1000)
         \<and> 0 \<le> remaining_budget_usd (result_statistics res)
         \<and> total_cost_usd (result_statistics res) \<le> py_round budget_usd 2"
proof -
  from assms(2) obtain st ss where
    loop: "greedy_loop geodesic now (filter (\<lambda>r. status r = ''Available'') robots)
             time_window_days vessel_speed_knots vessel_day_rate ss
             (initial_state now robots budget_usd) = Inr st"
    and ms: "result_missions res = missions st"
    and rem: "remaining_budget_usd (result_statistics res) = py_round (remaining_budget st) 2"
    and tot: "total_cost_usd (result_statistics res) = py_round (budget_usd - remaining_budget st) 2"
    by (rule scheduler_Inr)
  from greedy_loop_budget [OF loop initial_budget_inv [OF assms(1)]]
  obtain costs where inv: "budget_inv budget_usd costs st" ..
  then have c: "map cost_usd (missions st) = map (\<lambda>c. py_round c 2) costs"
    and s: "sum_list costs = budget_usd - remaining_budget st"
    and r: "0 \<le> remaining_budget st"
    by (simp_all add: budget_inv_def)
  have len: "length costs = length (missions st)"
    using arg_cong [OF c, of length] by simp
  have "sum_list (map cost_usd (missions st)) \<le> sum_list costs + real (length costs) * (5 / 1000)"
    unfolding c by (rule sum_round_slack)
  also have "\<dots> \<le> budget_usd + real (length (missions st)) * (5 / 1000)"
    using s r len by simp
  finally have 1: "sum_list (map cost_usd (result_missions res))
           \<le> budget_usd + real (length (result_missions res)) * (5 / 1000)"
    unfolding ms .
  have "of_int 0 \<le> py_round (remaining_budget st) 2" by (rule py_round_ge) (simp add: r)
  then have 2: "0 \<le> remaining_budget_usd (result_statistics res)" unfolding rem by simp
  have 3: "total_cost_usd (result_statistics res) \<le> py_round budget_usd 2"
    unfolding tot by (rule py_round_mono) (simp add: r)
  from 1 2 3 show ?thesis by simp
qed

text \<open>
  Claim C1, the amended statement on the run with the budget 33333.667.
\<close>

theorem scheduled_cost_within_budget_witness:
  "(0 :: real) \<le> 33333667 / 1000
   \<and> (\<exists>res. greedy_mission_scheduler geodesic_same_point example_now
        [example_robot ''R1'' 3 10 10001] [example_site ''S1'' 50 1000 0]
        180 (33333667 / 1000) 12 75000 ''score'' = Inr res
      \<and> length (result_missions res) = 1
      \<and> sum_list (map cost_usd (result_missions res))
           \<le> 33333667 / 1000 + real (length (result_missions res)) * (5 / 1000)
      \<and> 0 \<le> remaining_budget_usd (result_statistics res)
      \<and> total_cost_usd (result_statistics res) \<le> py_round (33333667 / 1000) 2)"
proof -
  have "\<exists>res. greedy_mission_scheduler geodesic_same_point example_now
        [example_robot ''R1'' 3 10 10001] [example_site ''S1'' 50 1000 0]
        180 (33333667 / 1000) 12 75000 ''score'' = Inr res
      \<and> length (result_missions res) = 1"
    by (simp add: eval_defs)
  then obtain res where run: "greedy_mission_scheduler geodesic_same_point example_now
        [example_robot ''R1'' 3 10 10001] [example_site ''S1'' 50 1000 0]
        180 (33333667 / 1000) 12 75000 ''score'' = Inr res"
    and len: "length (result_missions res) = 1" by (elim exE conjE)
  have b: "(0 :: real) \<le> 33333667 / 1000" by simp
  note c = scheduled_cost_within_budget [OF b run]
  show ?thesis
  proof (intro conjI exI)
    show "(0 :: real) \<le> 33333667 / 1000" by (rule b)
    show "greedy_mission_scheduler geodesic_same_point example_now
        [example_robot ''R1'' 3 10 10001] [example_site ''S1'' 50 1000 0]
        180 (33333667 / 1000) 12 75000 ''score'' = Inr res" by (rule run)
    show "length (result_missions res) = 1" by (rule len)
    show "sum_list (map cost_usd (result_missions res))
           \<le> 33333667 / 1000 + real (length (result_missions res)) * (5 / 1000)"
      by (rule c [THEN conjunct1])
    show "0 \<le> remaining_budget_usd (result_statistics res)"
      by (rule c [THEN conjunct2, THEN conjunct1])
    show "total_cost_usd (result_statistics res) \<le> py_round (33333667 / 1000) 2"
      by (rule c [THEN conjunct2, THEN conjunct2])
  qed
qed

text \<open>
  Claim C2, as stated, fails when a mission's duration is negative. A robot with
  \<open>speed_knots = -20\<close> surveys sites A, B, C (B at 9000 m with terrain difficulty 100):
  the durations are 1.975 h, -1.001 h and 1.975 h, so the third mission starts at
  3505723542 microseconds, before the first one ends at 7110583153.
\<close>

theorem negative_duration_overlap:
  "map_sum id (\<lambda>res. map (\<lambda>m. (mission_robot_id m, start_date m - example_now,
                                   end_date m - example_now)) (result_missions res))
     (greedy_mission_scheduler geodesic_same_point example_now
        [example_robot ''R1'' (- 20) 100 10000]
        [example_site ''A'' 90 0 0, example_site ''B'' 80 9000 100, example_site ''C'' 70 0 0]
        180 1000000 12 75000 ''score'')
   = Inr [(''R1'', 0, 7110583153), (''R1'', 7110583153, 3505723542),
          (''R1'', 3505723542, 10616306695)]
   \<and> map_sum id (\<lambda>res. no_overlap (result_missions res))
     (greedy_mission_scheduler geodesic_same_point example_now
        [example_robot ''R1'' (- 20) 100 10000]
        [example_site ''A'' 90 0 0, example_site ''B'' 80 9000 100, example_site ''C'' 70 0 0]
        180 1000000 12 75000 ''score'') = Inr False"
  by (simp add: eval_defs)

text \<open>
  Claim C2, amended: when the vessel speed and every robot's speed are positive, every
  robot's endurance, every site's depth and terrain difficulty and every geodesic distance
  are not negative, then in every returned schedule no mission ends before it starts and
  each later mission of a robot starts no earlier than the end of every earlier mission of
  that robot.
\<close>

theorem robot_missions_serialized:
  assumes "0 < vessel_speed_knots"
    and "\<forall>p q km. geodesic p q = Inr km \<longrightarrow> 0 \<le> km"
    and "\<forall>r \<in> set robots. 0 < speed_knots r \<and> 0 \<le> endurance_hours r"
    and "\<forall>s \<in> set sites. 0 \<le> depth_m s \<and> 0 \<le> terrain_difficulty s"
    and "greedy_mission_scheduler geodesic now robots sites time_window_days budget_usd
           vessel_speed_knots vessel_day_rate prioritize_by = Inr res"
  shows "no_overlap (result_missions res)
         \<and> (\<forall>m \<in> set (result_missions res). start_date m \<le> end_date m)"
proof -
  from assms(5) obtain st ss where
    ss: "set ss = set sites"
    and loop: "greedy_loop geodesic now (filter (\<lambda>r. status r = ''Available'') robots)
             time_window_days vessel_speed_knots vessel_day_rate ss
             (initial_state now robots budget_usd) = Inr st"
    and ms: "result_missions res = missions st"
    by (rule scheduler_Inr)
  have av: "\<forall>r \<in> set (filter (\<lambda>r. status r = ''Available'') robots).
              0 < speed_knots r \<and> 0 \<le> endurance_hours r"
    using assms(3) by simp
  have si: "\<forall>s \<in> set ss. 0 \<le> depth_m s \<and> 0 \<le> terrain_difficulty s"
    using assms(4) ss by simp
  have "serial_inv st"
    by (rule greedy_loop_serial [OF loop initial_serial_inv assms(1) assms(2) av si])
  then show ?thesis unfolding ms serial_inv_def by simp
qed

text \<open>
  Claim C2, the amended statement on a run that gives robot R1 two missions.
\<close>

theorem robot_missions_serialized_witness:
  "(0 :: real) < 12
   \<and> (\<exists>res. greedy_mission_scheduler geodesic_same_point example_now
          [example_robot ''R1'' 3 10 10000]
          [example_site ''A'' 90 1000 10, example_site ''B'' 80 2000 20]
          180 1000000 12 75000 ''score'' = Inr res
        \<and> map mission_robot_id (result_missions res) = [''R1'', ''R1'']
        \<and> no_overlap (result_missions res)
        \<and> (\<forall>m \<in> set (result_missions res). start_date m \<le> end_date m))"
proof -
  have "\<exists>res. greedy_mission_scheduler geodesic_same_point example_now
          [example_robot ''R1'' 3 10 10000]
          [example_site ''A'' 90 1000 10, example_site ''B'' 80 2000 20]
          180 1000000 12 75000 ''score'' = Inr res
        \<and> map mission_robot_id (result_missions res) = [''R1'', ''R1'']"
    by (simp add: eval_defs)
  then obtain res where run: "greedy_mission_scheduler geodesic_same_point example_now
          [example_robot ''R1'' 3 10 10000]
          [example_site ''A'' 90 1000 10, example_site ''B'' 80 2000 20]
          180 1000000 12 75000 ''score'' = Inr res"
    and ids: "map mission_robot_id (result_missions res) = [''R1'', ''R1'']"
    by (elim exE conjE)
  have h1: "(0 :: real) < 12" by simp
  have h2: "\<forall>p q km. geodesic_same_point p q = Inr km \<longrightarrow> 0 \<le> km"
    by (simp add: geodesic_same_point_def)
  have h3: "\<forall>r \<in> set [example_robot ''R1'' 3 10 10000]. 0 < speed_knots r \<and> 0 \<le> endurance_hours r"
    by (simp add: example_robot_def)
  have h4: "\<forall>s \<in> set [example_site ''A'' 90 1000 10, example_site ''B'' 80 2000 20].
              0 \<le> depth_m s \<and> 0 \<le> terrain_difficulty s"
    by (simp add: example_site_def)
  from robot_missions_serialized [OF h1 h2 h3 h4 run]
  have c1: "no_overlap (result_missions res)"
    and c2: "\<forall>m \<in> set (result_missions res). start_date m \<le> end_date m"
    by (rule conjunct1, rule conjunct2)
  show ?thesis
  proof (intro conjI exI)
    show "(0 :: real) < 12" by (rule h1)
    show "greedy_mission_scheduler geodesic_same_point example_now
          [example_robot ''R1'' 3 10 10000]
          [example_site ''A'' 90 1000 10, example_site ''B'' 80 2000 20]
          180 1000000 12 75000 ''score'' = Inr res" by (rule run)
    show "map mission_robot_id (result_missions res) = [''R1'', ''R1'']" by (rule ids)
    show "no_overlap (result_missions res)" by (rule c1)
    show "\<forall>m \<in> set (result_missions res). start_date m \<le> end_date m" by (rule c2)
  qed
qed

text \<open>
  Claim C3: with \<open>budget_usd = 0\<close> and non-empty robot and site lists the loop stops at
  once, and the statistics then divide the total cost by the budget:
  \<open>greedy_mission_scheduler\<close> raises \<open>ZeroDivisionError\<close> instead of returning zero
  missions and zero statistics.
\<close>

theorem zero_budget_raises:
  assumes "robots \<noteq> []" and "sites \<noteq> []"
  shows "greedy_mission_scheduler geodesic now robots sites time_window_days 0
           vessel_speed_knots vessel_day_rate prioritize_by = Inl ZeroDivisionError"
  using assms
  by (simp add: greedy_mission_scheduler_def column_def sort_values_desc_def bind_err_def
      greedy_loop_no_budget Let_def)

text \<open>
  Claim C3, on one robot and one site.
\<close>

theorem zero_budget_raises_witness:
  "[example_robot ''R1'' 3 10 10001] \<noteq> [] \<and> [example_site ''S1'' 50 1000 0] \<noteq> []
   \<and> greedy_mission_scheduler geodesic_same_point example_now
        [example_robot ''R1'' 3 10 10001] [example_site ''S1'' 50 1000 0]
        180 0 12 75000 ''score'' = Inl ZeroDivisionError"
  using zero_budget_raises [of "[example_robot ''R1'' 3 10 10001]"
      "[example_site ''S1'' 50 1000 0]" geodesic_same_point example_now 180 12 75000 "''score''"]
  by simp

text \<open>
  Claim C10, as stated, fails in the error raised: with an empty site list and one robot
  the scheduler raises \<open>KeyError\<close> for the sort column, not \<open>ZeroDivisionError\<close>.
\<close>

theorem empty_sites_not_zero_division:
  "greedy_mission_scheduler geodesic_same_point example_now [example_robot ''R1'' 3 10 10001] []
     180 10000000 12 75000 ''score'' = Inl (KeyError ''mineral_concentration'')
   \<and> greedy_mission_scheduler geodesic_same_point example_now [example_robot ''R1'' 3 10 10001] []
     180 10000000 12 75000 ''score'' \<noteq> Inl ZeroDivisionError"
  by (simp add: greedy_mission_scheduler_def column_def sort_values_desc_def bind_err_def Let_def
      example_robot_def)

text \<open>
  Claim C10, amended: for every call with an empty site list the scheduler raises a
  \<open>KeyError\<close> and returns no result: for the column \<open>status\<close> when the robot list is
  empty too, else for the column the sites are sorted by. The frame of an empty list has
  no columns, and the statistics, with their division by the site count, are not reached.
\<close>

theorem empty_sites_raises_key_error:
  "greedy_mission_scheduler geodesic now robots [] time_window_days budget_usd
     vessel_speed_knots vessel_day_rate prioritize_by =
   Inl (KeyError (if robots = [] then ''status''
                  else if prioritize_by = ''score'' then ''mineral_concentration''
                  else ''estimated_value_millions''))"
  by (simp add: greedy_mission_scheduler_def column_def sort_values_desc_def bind_err_def Let_def)

end
